theory Spec2Isabelle
  imports Main "HOL-Library.Word"
begin

section \<open>JavaScript values used by the task pipeline\<close>

text \<open>
  A JavaScript string is a sequence of UTF-16 code units. \<open>js\<close> writes a string of
  Basic Latin characters as such a sequence.
\<close>

type_synonym jsstring = "16 word list"

definition js :: "string \<Rightarrow> jsstring" where
  "js s = map of_char s"

text \<open>
  A property or variable that may hold \<open>undefined\<close>, \<open>null\<close> or a value. A missing
  object key reads as \<open>undefined\<close>.
\<close>

datatype 'a jsopt = Undefined | Null | Defined 'a

text \<open>
  A Number as \<open>parseInt\<close> returns it: \<open>NaN\<close>, a finite double (all doubles that
  \<open>parseInt\<close> returns have an integer value; \<open>Num 0\<close> is \<open>+0\<close>), \<open>-0\<close>, or an
  infinity.
\<close>

datatype jsnumber = NaN | Num int | PosInfinity | NegInfinity | NegZero

text \<open>Truthiness of a value that is a string, \<open>null\<close> or \<open>undefined\<close>.\<close>

definition truthy :: "jsstring jsopt \<Rightarrow> bool" where
  "truthy v = (case v of Defined s \<Rightarrow> s \<noteq> [] | Null \<Rightarrow> False | Undefined \<Rightarrow> False)"

text \<open>Truthiness of a value that is a boolean or \<open>undefined\<close>.\<close>

definition truthy_bool :: "bool jsopt \<Rightarrow> bool" where
  "truthy_bool v = (case v of Defined b \<Rightarrow> b | Null \<Rightarrow> False | Undefined \<Rightarrow> False)"

text \<open>
  ECMAScript \<open>WhiteSpace\<close> and \<open>LineTerminator\<close> code units: what \<open>trim\<close> and
  \<open>parseInt\<close> strip.
\<close>

definition isWhiteSpace :: "16 word \<Rightarrow> bool" where
  "isWhiteSpace c =
     (c = 0x0009 \<or> c = 0x000A \<or> c = 0x000B \<or> c = 0x000C \<or> c = 0x000D \<or> c = 0x0020 \<or>
      c = 0x00A0 \<or> c = 0x1680 \<or> (0x2000 \<le> c \<and> c \<le> 0x200A) \<or> c = 0x2028 \<or>
      c = 0x2029 \<or> c = 0x202F \<or> c = 0x205F \<or> c = 0x3000 \<or> c = 0xFEFF)"

text \<open>\<open>String.prototype.trim\<close>.\<close>

definition trim :: "jsstring \<Rightarrow> jsstring" where
  "trim s = rev (dropWhile isWhiteSpace (rev (dropWhile isWhiteSpace s)))"

text \<open>
  \<open>String.prototype.split\<close> with a separator of one code unit: the pieces between the
  separators, empty pieces included; the empty string gives one empty piece.
\<close>

fun split :: "16 word \<Rightarrow> jsstring \<Rightarrow> jsstring list" where
  "split sep [] = [] # []"
| "split sep (c # cs) =
     (if c = sep then [] # split sep cs
      else (case split sep cs of [] \<Rightarrow> [c] # [] | p # ps \<Rightarrow> (c # p) # ps))"

text \<open>\<open>Array.prototype.join\<close> with a separator of one code unit.\<close>

fun join :: "16 word \<Rightarrow> jsstring list \<Rightarrow> jsstring" where
  "join sep [] = []"
| "join sep [p] = p"
| "join sep (p # q # ps) = p @ sep # join sep (q # ps)"

text \<open>
  \<open>String.prototype.substring(start, end)\<close> on non-negative indices: both are
  clamped to the length and swapped when \<open>start > end\<close>.
\<close>

definition substring :: "nat \<Rightarrow> nat \<Rightarrow> jsstring \<Rightarrow> jsstring" where
  "substring start end s =
     (let a = min start (length s); b = min end (length s)
      in take (max a b - min a b) (drop (min a b) s))"

text \<open>
  \<open>String.prototype.toUpperCase\<close> follows the Unicode case tables of the runtime, which
  are not part of the repository: the pipeline takes it as a parameter. On strings of
  Basic Latin code units it is \<open>ascii_toUpperCase\<close>.
\<close>

definition ascii_toUpperCase :: "jsstring \<Rightarrow> jsstring" where
  "ascii_toUpperCase s = map (\<lambda>c. if 0x61 \<le> c \<and> c \<le> 0x7A then c - 0x20 else c) s"

text \<open>
  The Number for a positive integer: a double has a significand of 53 bits, so an integer
  of more bits is rounded to the nearest multiple of the power of two that its surplus
  bits make, to the even one of two that are equally near, and to infinity from
  \<open>2 ^ 1024\<close> on. \<open>None\<close> is infinity. The exact integer is rounded; ECMAScript
  also lets an implementation read the digits after the twentieth as zeros.
\<close>

function bitLength :: "int \<Rightarrow> nat" where
  "bitLength n = (if n \<le> 0 then 0 else Suc (bitLength (n div 2)))"
  by pat_completeness auto
termination
  by (relation "measure nat") auto

declare bitLength.simps [simp del]

definition roundToDouble :: "int \<Rightarrow> int option" where
  "roundToDouble n =
     (let k = bitLength n
      in if k \<le> 53 then Some n
         else
           (let sh = k - 53;
                q = n div 2 ^ sh;
                r = n mod 2 ^ sh;
                half = 2 ^ (sh - 1);
                q' = (if half < r \<or> (r = half \<and> odd q) then q + 1 else q);
                v = q' * 2 ^ sh
            in if 2 ^ 1024 \<le> v then None else Some v))"

text \<open>
  The last steps of \<open>parseInt\<close>: \<open>-0\<close> for a negative zero, and otherwise the Number
  for the signed integer.
\<close>

definition toNumber :: "bool \<Rightarrow> int \<Rightarrow> jsnumber" where
  "toNumber negative mathInt =
     (if mathInt = 0 then (if negative then NegZero else Num 0)
      else
        (case roundToDouble mathInt of
           None \<Rightarrow> if negative then NegInfinity else PosInfinity
         | Some v \<Rightarrow> Num ((if negative then - 1 else 1) * v)))"

text \<open>
  \<open>parseInt(string, 10)\<close>: leading white space is skipped, one sign is read, then the
  longest run of decimal digits; with no digit there the result is \<open>NaN\<close>, and
  otherwise the Number for the signed integer that the digits write. Whatever follows the
  digits is ignored.
\<close>

definition isDigit :: "16 word \<Rightarrow> bool" where
  "isDigit c = (0x30 \<le> c \<and> c \<le> 0x39)"

definition digitsValue :: "jsstring \<Rightarrow> int" where
  "digitsValue z = foldl (\<lambda>a c. 10 * a + (uint c - 48)) 0 z"

definition stripSign :: "jsstring \<Rightarrow> jsstring" where
  "stripSign s = (case s of [] \<Rightarrow> [] | c # cs \<Rightarrow> if c = 0x2B \<or> c = 0x2D then cs else c # cs)"

definition isNegative :: "jsstring \<Rightarrow> bool" where
  "isNegative s = (case s of [] \<Rightarrow> False | c # cs \<Rightarrow> c = 0x2D)"

definition parseInt :: "jsstring \<Rightarrow> jsnumber" where
  "parseInt string =
     (let S = dropWhile isWhiteSpace string;
          Z = takeWhile isDigit (stripSign S)
      in if Z = [] then NaN else toNumber (isNegative S) (digitsValue Z))"

text \<open>
  A numeric string in the sense of the specification of the progress field: a base-10
  integer, that is one or more decimal digits after an optional sign.
\<close>

definition numericString :: "jsstring \<Rightarrow> bool" where
  "numericString s = (stripSign s \<noteq> [] \<and> list_all isDigit (stripSign s))"

section \<open>Errors and effects\<close>

text \<open>
  What a function can throw: the \<open>RangeError\<close> of date-fns for an invalid date, the
  \<open>TypeError\<close> of reading a property of \<open>null\<close>, or an error object produced by the
  backend client.
\<close>

datatype error = RangeError | TypeError | BackendError jsstring

text \<open>Lines written to the console.\<close>

datatype console = ConsoleError jsstring error | ConsoleLog jsstring

section \<open>Dates\<close>

text \<open>
  A \<open>Date\<close> object holds a time value, the milliseconds since the epoch in UTC, or
  \<open>NaN\<close> (an invalid date).
\<close>

datatype jsdate = TimeValue int | InvalidDate

text \<open>
  The day and calendar functions of ECMAScript (Day Number and Time within Day, Year
  Number, Month Number, Date Number) on the proleptic Gregorian calendar.
\<close>

definition msPerDay :: int where
  "msPerDay = 86400000"

definition Day :: "int \<Rightarrow> int" where
  "Day t = t div msPerDay"

definition DaysInYear :: "int \<Rightarrow> int" where
  "DaysInYear y =
     (if y mod 4 \<noteq> 0 then 365
      else if y mod 100 \<noteq> 0 then 366
      else if y mod 400 \<noteq> 0 then 365
      else 366)"

definition DayFromYear :: "int \<Rightarrow> int" where
  "DayFromYear y =
     365 * (y - 1970) + (y - 1969) div 4 - (y - 1901) div 100 + (y - 1601) div 400"

text \<open>
  \<open>YearFromTime t\<close> is the largest \<open>y\<close> with \<open>DayFromYear y \<le> Day t\<close>. A year
  has 146097 / 400 days on average, which gives a year that is off by one at most.
\<close>

definition YearFromTime :: "int \<Rightarrow> int" where
  "YearFromTime t =
     (let d = Day t; y = 1970 + (400 * d) div 146097
      in if DayFromYear (y + 1) \<le> d then y + 1
         else if DayFromYear y \<le> d then y
         else y - 1)"

definition InLeapYear :: "int \<Rightarrow> int" where
  "InLeapYear t = (if DaysInYear (YearFromTime t) = 366 then 1 else 0)"

definition DayWithinYear :: "int \<Rightarrow> int" where
  "DayWithinYear t = Day t - DayFromYear (YearFromTime t)"

text \<open>Months are numbered from 0 (January) to 11 (December).\<close>

definition MonthFromTime :: "int \<Rightarrow> int" where
  "MonthFromTime t =
     (let d = DayWithinYear t; l = InLeapYear t
      in if d < 31 then 0
         else if d < 59 + l then 1
         else if d < 90 + l then 2
         else if d < 120 + l then 3
         else if d < 151 + l then 4
         else if d < 181 + l then 5
         else if d < 212 + l then 6
         else if d < 243 + l then 7
         else if d < 273 + l then 8
         else if d < 304 + l then 9
         else if d < 334 + l then 10
         else 11)"

definition DateFromTime :: "int \<Rightarrow> int" where
  "DateFromTime t =
     (let d = DayWithinYear t; l = InLeapYear t; m = MonthFromTime t
      in if m = 0 then d + 1
         else if m = 1 then d - 30
         else if m = 2 then d - 58 - l
         else if m = 3 then d - 89 - l
         else if m = 4 then d - 119 - l
         else if m = 5 then d - 150 - l
         else if m = 6 then d - 180 - l
         else if m = 7 then d - 211 - l
         else if m = 8 then d - 242 - l
         else if m = 9 then d - 272 - l
         else if m = 10 then d - 303 - l
         else d - 333 - l)"

text \<open>
  The day within the year on which month \<open>m\<close> (0 to 11) starts, and the number of
  days of month \<open>m\<close>, in a year of \<open>n\<close> days.
\<close>

definition monthStart :: "int \<Rightarrow> int \<Rightarrow> int" where
  "monthStart n m =
     (let l = (if n = 366 then 1 else 0)
      in if m = 0 then 0
         else if m = 1 then 31
         else if m = 2 then 59 + l
         else if m = 3 then 90 + l
         else if m = 4 then 120 + l
         else if m = 5 then 151 + l
         else if m = 6 then 181 + l
         else if m = 7 then 212 + l
         else if m = 8 then 243 + l
         else if m = 9 then 273 + l
         else if m = 10 then 304 + l
         else 334 + l)"

definition DaysInMonth :: "int \<Rightarrow> int \<Rightarrow> int" where
  "DaysInMonth y m =
     (if m = 11 then DaysInYear y - monthStart (DaysInYear y) 11
      else monthStart (DaysInYear y) (m + 1) - monthStart (DaysInYear y) m)"

text \<open>
  \<open>MakeDay year month date\<close>: the day number of the given date; a month outside 0 to
  11 carries into the year. \<open>MakeDate\<close> adds the time within the day.
\<close>

definition MakeDay :: "int \<Rightarrow> int \<Rightarrow> int \<Rightarrow> int" where
  "MakeDay year month date =
     (let ym = year + month div 12; mn = month mod 12
      in DayFromYear ym + monthStart (DaysInYear ym) mn + date - 1)"

definition MakeDate :: "int \<Rightarrow> int \<Rightarrow> int" where
  "MakeDate day time = day * msPerDay + time"

text \<open>
  Local time: the runtime's time zone gives, for a UTC time value, the offset of local
  time from UTC in milliseconds (\<open>LocalTZA\<close>). It is a parameter \<open>tza\<close> of everything
  that reads a date in local time.
\<close>

definition LocalTime :: "(int \<Rightarrow> int) \<Rightarrow> int \<Rightarrow> int" where
  "LocalTime tza t = t + tza t"

text \<open>
  The date components of a time value as \<open>getFullYear\<close>, \<open>getMonth\<close>, \<open>getDate\<close>
  return them (local time) and as \<open>getUTCFullYear\<close>, \<open>getUTCMonth\<close>, \<open>getUTCDate\<close>
  do.
\<close>

definition utcDateComponents :: "int \<Rightarrow> int \<times> int \<times> int" where
  "utcDateComponents t = (YearFromTime t, MonthFromTime t, DateFromTime t)"

definition localDateComponents :: "(int \<Rightarrow> int) \<Rightarrow> int \<Rightarrow> int \<times> int \<times> int" where
  "localDateComponents tza t = utcDateComponents (LocalTime tza t)"

text \<open>Decimal digits of a natural number, as \<open>Number.prototype.toString\<close> writes them.\<close>

fun decimal :: "nat \<Rightarrow> jsstring" where
  "decimal n = (if n < 10 then [of_nat (48 + n)] else decimal (n div 10) @ [of_nat (48 + n mod 10)])"

declare decimal.simps [simp del]

text \<open>\<open>String.prototype.padStart\<close> with a fill string of one code unit.\<close>

definition padStart :: "nat \<Rightarrow> 16 word \<Rightarrow> jsstring \<Rightarrow> jsstring" where
  "padStart targetLength c s = replicate (targetLength - length s) c @ s"

text \<open>\<open>addLeadingZeros\<close> of date-fns.\<close>

definition addLeadingZeros :: "int \<Rightarrow> nat \<Rightarrow> jsstring" where
  "addLeadingZeros number targetLength =
     (if number < 0 then js ''-'' else []) @ padStart targetLength 0x30 (decimal (nat \<bar>number\<bar>))"

text \<open>
  \<open>format(date, 'yyyy-MM-dd')\<close> of date-fns: the local date components, the year of a
  date before year 1 written as \<open>1 - year\<close>; an invalid date throws \<open>RangeError\<close>.
\<close>

definition format_yyyy_MM_dd :: "(int \<Rightarrow> int) \<Rightarrow> jsdate \<Rightarrow> error + jsstring" where
  "format_yyyy_MM_dd tza date =
     (case date of
        InvalidDate \<Rightarrow> Inl RangeError
      | TimeValue t \<Rightarrow>
          (let lt = LocalTime tza t;
               signedYear = YearFromTime lt;
               year = (if signedYear > 0 then signedYear else 1 - signedYear)
           in Inr (addLeadingZeros year 4 @ js ''-'' @
                   addLeadingZeros (MonthFromTime lt + 1) 2 @ js ''-'' @
                   addLeadingZeros (DateFromTime lt) 2)))"

text \<open>
  \<open>format(date, 'PP')\<close> of date-fns in its default locale: the medium date
  \<open>MMM d, y\<close>, as in \<open>Apr 29, 1453\<close>.
\<close>

definition monthAbbreviation :: "int \<Rightarrow> jsstring" where
  "monthAbbreviation m =
     [js ''Jan'', js ''Feb'', js ''Mar'', js ''Apr'', js ''May'', js ''Jun'',
      js ''Jul'', js ''Aug'', js ''Sep'', js ''Oct'', js ''Nov'', js ''Dec''] ! nat (m mod 12)"

definition format_PP :: "(int \<Rightarrow> int) \<Rightarrow> jsdate \<Rightarrow> error + jsstring" where
  "format_PP tza date =
     (case date of
        InvalidDate \<Rightarrow> Inl RangeError
      | TimeValue t \<Rightarrow>
          (let lt = LocalTime tza t;
               signedYear = YearFromTime lt;
               year = (if signedYear > 0 then signedYear else 1 - signedYear)
           in Inr (monthAbbreviation (MonthFromTime lt) @ js '' '' @
                   addLeadingZeros (DateFromTime lt) 1 @ js '', '' @
                   addLeadingZeros year 1)))"

text \<open>
  \<open>new Date(string)\<close>. A string of the date-only form \<open>YYYY-MM-DD\<close> of the ECMAScript
  date-time format, with a month and a day that exist, is that day at midnight UTC.
  What any other string gives (the other forms of the format, and the fallback that
  ECMAScript leaves to the implementation) is the parameter \<open>other\<close>.
\<close>

definition parseISODate :: "jsstring \<Rightarrow> int option" where
  "parseISODate s =
     (if length s = 10 \<and> list_all isDigit (take 4 s) \<and> s ! 4 = 0x2D \<and>
         list_all isDigit (take 2 (drop 5 s)) \<and> s ! 7 = 0x2D \<and>
         list_all isDigit (drop 8 s)
      then
        (let y = digitsValue (take 4 s);
             m = digitsValue (take 2 (drop 5 s));
             d = digitsValue (drop 8 s)
         in if 1 \<le> m \<and> m \<le> 12 \<and> 1 \<le> d \<and> d \<le> DaysInMonth y (m - 1)
            then Some (MakeDate (MakeDay y (m - 1) d) 0)
            else None)
      else None)"

definition newDate :: "(jsstring \<Rightarrow> jsdate) \<Rightarrow> jsstring \<Rightarrow> jsdate" where
  "newDate other s = (case parseISODate s of Some t \<Rightarrow> TimeValue t | None \<Rightarrow> other s)"

section \<open>Storage dates (lib/api)\<close>

definition formatDateForSupabase :: "(int \<Rightarrow> int) \<Rightarrow> jsdate \<Rightarrow> error + jsstring" where
  "formatDateForSupabase tza date = format_yyyy_MM_dd tza date"

text \<open>The result \<open>None\<close> is \<open>null\<close>.\<close>

definition parseDateFromSupabase :: "(jsstring \<Rightarrow> jsdate) \<Rightarrow> jsstring jsopt \<Rightarrow> jsdate option" where
  "parseDateFromSupabase other dateString =
     (case dateString of
        Defined s \<Rightarrow> if truthy dateString then Some (newDate other s) else None
      | Null \<Rightarrow> None
      | Undefined \<Rightarrow> None)"

section \<open>Task records (components/tasks/types)\<close>

datatype TaskStatus = pending | in_progress | complete

datatype TaskPriority = high | medium | low

text \<open>The snapshot of a team member stored in a task.\<close>

record assignment =
  id' :: jsstring
  name :: jsstring
  avatar :: "jsstring jsopt"
  initials :: jsstring

text \<open>
  A task. \<open>dueDate\<close> is a \<open>Date\<close>, or \<open>None\<close> for \<open>null\<close>.
  \<open>emailNotification\<close> and \<open>notificationEmail\<close> are the two further fields that
  the reminder scheduler reads from a task.
\<close>

record Task =
  id' :: jsstring
  title :: jsstring
  description :: jsstring
  priority :: TaskPriority
  status :: TaskStatus
  dueDate :: "jsdate option"
  dueTime :: "jsstring jsopt"
  reminderSet :: "bool jsopt"
  reminderTime :: "jsstring jsopt"
  progress :: "jsnumber jsopt"
  assignedTo :: "assignment jsopt"
  tags :: "jsstring list jsopt"
  teamId :: "jsstring jsopt"
  emailNotification :: "bool jsopt"
  notificationEmail :: "jsstring jsopt"

section \<open>Task edit submission (components/tasks/TaskEditDialog)\<close>

text \<open>An entry of the \<open>teamMembers\<close> property of the dialog.\<close>

record teamMember =
  id' :: jsstring
  name :: jsstring

text \<open>The raw form values that \<open>TaskForm\<close> hands to \<open>handleSubmit\<close>.\<close>

record form_data =
  title :: jsstring
  description :: jsstring
  priority :: TaskPriority
  status :: TaskStatus
  dueDate :: "jsdate option"
  dueTime :: "jsstring jsopt"
  reminderEnabled :: bool
  reminderTime :: "jsstring jsopt"
  progress :: jsstring
  tags :: "jsstring jsopt"
  assignedTo :: "jsstring jsopt"
  teamId :: "jsstring jsopt"

text \<open>
  The object that \<open>handleSubmit\<close> passes to \<open>onSubmit\<close>: \<open>Undefined\<close> in \<open>id'\<close> is
  the absent key.
\<close>

record submission =
  id' :: "jsstring jsopt"
  title :: jsstring
  description :: jsstring
  priority :: TaskPriority
  status :: TaskStatus
  dueDate :: "jsdate option"
  dueTime :: "jsstring jsopt"
  reminderSet :: bool
  reminderTime :: "jsstring jsopt"
  progress :: jsnumber
  tags :: "jsstring list jsopt"
  assignedTo :: "assignment jsopt"
  teamId :: "jsstring jsopt"

text \<open>The calls that \<open>handleSubmit\<close> makes on the properties of the dialog, in order.\<close>

datatype callback = OnSubmit submission | OnOpenChange bool

text \<open>
  \<open>const tags = data.tags ? data.tags.split(',').map(tag => tag.trim()) : []\<close>
\<close>

definition processTags :: "jsstring jsopt \<Rightarrow> jsstring list" where
  "processTags raw =
     (case raw of
        Defined s \<Rightarrow> if truthy raw then map trim (split 0x2C s) else []
      | Null \<Rightarrow> []
      | Undefined \<Rightarrow> [])"

text \<open>
  \<open>data.assignedTo ? teamMembers.find(m => m.id === data.assignedTo) : undefined\<close>
\<close>

definition assignedTeamMember :: "teamMember list \<Rightarrow> jsstring jsopt \<Rightarrow> teamMember option" where
  "assignedTeamMember teamMembers raw =
     (case raw of
        Defined a \<Rightarrow> if truthy raw then List.find (\<lambda>m. teamMember.id' m = a) teamMembers else None
      | Null \<Rightarrow> None
      | Undefined \<Rightarrow> None)"

definition onSubmit_payload ::
  "(jsstring \<Rightarrow> jsstring) \<Rightarrow> Task option \<Rightarrow> teamMember list \<Rightarrow> form_data \<Rightarrow> submission" where
  "onSubmit_payload toUpperCase task teamMembers data =
     (let tags = processTags (form_data.tags data);
          found = assignedTeamMember teamMembers (form_data.assignedTo data)
      in \<lparr> submission.id' =
             (case task of
                None \<Rightarrow> Undefined
              | Some t \<Rightarrow> if Task.id' t \<noteq> [] then Defined (Task.id' t) else Undefined),
           submission.title = form_data.title data,
           submission.description = form_data.description data,
           submission.priority = form_data.priority data,
           submission.status = form_data.status data,
           submission.dueDate = form_data.dueDate data,
           submission.dueTime = form_data.dueTime data,
           submission.reminderSet = form_data.reminderEnabled data,
           submission.reminderTime =
             (if form_data.reminderEnabled data then form_data.reminderTime data else Null),
           submission.progress = parseInt (form_data.progress data),
           submission.tags = (if length tags > 0 then Defined tags else Null),
           submission.assignedTo =
             (case found of
                Some m \<Rightarrow>
                  Defined \<lparr> assignment.id' = teamMember.id' m,
                            assignment.name = teamMember.name m,
                            assignment.avatar = Undefined,
                            assignment.initials = toUpperCase (substring 0 2 (teamMember.name m)) \<rparr>
              | None \<Rightarrow> Undefined),
           submission.teamId =
             (if truthy (form_data.teamId data) then form_data.teamId data else Undefined) \<rparr>)"

definition handleSubmit ::
  "(jsstring \<Rightarrow> jsstring) \<Rightarrow> Task option \<Rightarrow> teamMember list \<Rightarrow> form_data \<Rightarrow> callback list" where
  "handleSubmit toUpperCase task teamMembers data =
     [OnSubmit (onSubmit_payload toUpperCase task teamMembers data), OnOpenChange False]"

section \<open>Backend client\<close>

text \<open>
  What awaiting a request to the backend gives: the promise rejects with an error, or it
  resolves to an object with the fields \<open>data\<close> and \<open>error\<close>, each of which may be
  \<open>null\<close>.
\<close>

datatype 'a response = Rejects error | Resolves "'a option" "error option"

record Team =
  id' :: jsstring
  name :: jsstring
  description :: "jsstring option"
  created_by :: jsstring
  created_at :: jsstring

datatype role = Admin | Member

record team_member_row =
  id' :: jsstring
  team_id :: jsstring
  user_id :: jsstring
  role :: role
  joined_at :: jsstring

text \<open>A row of \<open>team_members\<close> as \<open>select('team_id')\<close> returns it.\<close>

record membership_ref =
  team_id :: jsstring

section \<open>Team lookup (lib/api)\<close>

text \<open>
  \<open>getTeams\<close>: the two queries are parameters, \<open>select_memberships userId\<close> for
  \<open>from('team_members').select('team_id').eq('user_id', userId)\<close> and
  \<open>select_teams teamIds\<close> for \<open>from('teams').select('*').in('id', teamIds)\<close>.
  \<open>getTeams_try\<close> is the body of the \<open>try\<close> block, with a \<open>throw\<close> as \<open>Inl\<close>;
  \<open>getTeams\<close> adds the \<open>catch\<close> block.
\<close>

definition getTeams_try ::
  "(jsstring \<Rightarrow> membership_ref list response) \<Rightarrow> (jsstring list \<Rightarrow> Team list response) \<Rightarrow>
   jsstring \<Rightarrow> error + Team list" where
  "getTeams_try select_memberships select_teams userId =
     (case select_memberships userId of
        Rejects e \<Rightarrow> Inl e
      | Resolves membershipData membershipError \<Rightarrow>
          (case membershipError of
             Some e \<Rightarrow> Inl e
           | None \<Rightarrow>
               (case membershipData of
                  None \<Rightarrow> Inr []
                | Some rows \<Rightarrow>
                    if length rows = 0 then Inr []
                    else
                      (case select_teams (map membership_ref.team_id rows) of
                         Rejects e \<Rightarrow> Inl e
                       | Resolves teamsData teamsError \<Rightarrow>
                           (case teamsError of
                              Some e \<Rightarrow> Inl e
                            | None \<Rightarrow>
                                Inr (case teamsData of Some ts \<Rightarrow> ts | None \<Rightarrow> []))))))"

definition getTeams ::
  "(jsstring \<Rightarrow> membership_ref list response) \<Rightarrow> (jsstring list \<Rightarrow> Team list response) \<Rightarrow>
   jsstring \<Rightarrow> console list \<times> (error + Team list)" where
  "getTeams select_memberships select_teams userId =
     (case getTeams_try select_memberships select_teams userId of
        Inr ts \<Rightarrow> ([], Inr ts)
      | Inl e \<Rightarrow> ([ConsoleError (js ''Error fetching teams:'') e], Inr []))"

text \<open>Whether a request failed: the promise rejected or the \<open>error\<close> field is set.\<close>

definition failed :: "'a response \<Rightarrow> bool" where
  "failed r = (case r of Rejects e \<Rightarrow> True | Resolves d e \<Rightarrow> e \<noteq> None)"

text \<open>Whether a request succeeded with no rows (\<open>data\<close> is \<open>null\<close> or empty).\<close>

definition no_rows :: "'a list response \<Rightarrow> bool" where
  "no_rows r =
     (case r of
        Rejects e \<Rightarrow> False
      | Resolves d e \<Rightarrow> e = None \<and> (case d of None \<Rightarrow> True | Some rows \<Rightarrow> rows = []))"

definition rows_of :: "'a list response \<Rightarrow> 'a list" where
  "rows_of r = (case r of Rejects e \<Rightarrow> [] | Resolves d e \<Rightarrow> (case d of None \<Rightarrow> [] | Some rows \<Rightarrow> rows))"

section \<open>Team creation (lib/api)\<close>

text \<open>
  The backend store is an external service. Its two tables are modelled as lists of
  rows. An insert either fails, with an error and the table as it was, or appends the
  row, with the columns that the store generates, and (for \<open>select().single()\<close>)
  returns it. \<open>backend\<close> says which of the two happens and what the store generates.
\<close>

record store =
  teams :: "Team list"
  team_members :: "team_member_row list"

record backend =
  team_insert_error :: "error option"
  member_insert_error :: "error option"
  generated_team_id :: jsstring
  generated_member_id :: jsstring
  now :: jsstring

record CreateTeamParams =
  name :: jsstring
  description :: "jsstring jsopt"
  created_by :: jsstring

definition insert_team ::
  "backend \<Rightarrow> store \<Rightarrow> jsstring \<Rightarrow> jsstring option \<Rightarrow> jsstring \<Rightarrow> Team response \<times> store" where
  "insert_team b db team_name descr creator =
     (case team_insert_error b of
        Some e \<Rightarrow> (Resolves None (Some e), db)
      | None \<Rightarrow>
          (let row = \<lparr> Team.id' = generated_team_id b,
                       Team.name = team_name,
                       Team.description = descr,
                       Team.created_by = creator,
                       Team.created_at = now b \<rparr>
           in (Resolves (Some row) None, db \<lparr> teams := teams db @ [row] \<rparr>)))"

definition insert_team_member ::
  "backend \<Rightarrow> store \<Rightarrow> jsstring \<Rightarrow> jsstring \<Rightarrow> role \<Rightarrow> unit response \<times> store" where
  "insert_team_member b db team user r =
     (case member_insert_error b of
        Some e \<Rightarrow> (Resolves None (Some e), db)
      | None \<Rightarrow>
          (let row = \<lparr> team_member_row.id' = generated_member_id b,
                       team_member_row.team_id = team,
                       team_member_row.user_id = user,
                       team_member_row.role = r,
                       team_member_row.joined_at = now b \<rparr>
           in (Resolves None None, db \<lparr> team_members := team_members db @ [row] \<rparr>)))"

text \<open>
  \<open>createTeam_try\<close> is the body of the \<open>try\<close> block, \<open>createTeam\<close> adds the
  \<open>catch\<close> block, which logs and throws again. The store after the call is part of the
  result.
\<close>

definition createTeam_try :: "backend \<Rightarrow> store \<Rightarrow> CreateTeamParams \<Rightarrow> (error + Team) \<times> store" where
  "createTeam_try b db params =
     (case insert_team b db (CreateTeamParams.name params)
             (if truthy (CreateTeamParams.description params)
              then (case CreateTeamParams.description params of
                      Defined s \<Rightarrow> Some s | Null \<Rightarrow> None | Undefined \<Rightarrow> None)
              else None)
             (CreateTeamParams.created_by params) of
        (Rejects e, db1) \<Rightarrow> (Inl e, db1)
      | (Resolves data error, db1) \<Rightarrow>
          (case error of
             Some e \<Rightarrow> (Inl e, db1)
           | None \<Rightarrow>
               (case data of
                  None \<Rightarrow> (Inl TypeError, db1)
                | Some team \<Rightarrow>
                    (case insert_team_member b db1 (Team.id' team)
                            (CreateTeamParams.created_by params) Admin of
                       (Rejects e, db2) \<Rightarrow> (Inl e, db2)
                     | (Resolves d memberError, db2) \<Rightarrow>
                         (case memberError of
                            Some e \<Rightarrow> (Inl e, db2)
                          | None \<Rightarrow> (Inr team, db2))))))"

definition createTeam ::
  "backend \<Rightarrow> store \<Rightarrow> CreateTeamParams \<Rightarrow> console list \<times> (error + Team) \<times> store" where
  "createTeam b db params =
     (case createTeam_try b db params of
        (Inr team, db') \<Rightarrow> ([], Inr team, db')
      | (Inl e, db') \<Rightarrow> ([ConsoleError (js ''Error creating team:'') e], Inl e, db'))"

text \<open>The membership rows of a team.\<close>

definition members_of :: "store \<Rightarrow> jsstring \<Rightarrow> team_member_row list" where
  "members_of db team = filter (\<lambda>r. team_member_row.team_id r = team) (team_members db)"

section \<open>Reminder scheduling (lib/api)\<close>

text \<open>
  The object whose JSON text is the body of the \<open>send-reminder\<close> request; \<open>dueDate\<close> is
  \<open>None\<close> for \<open>null\<close>.
\<close>

record reminder_body =
  taskId :: jsstring
  email :: "jsstring jsopt"
  taskTitle :: jsstring
  dueDate :: "jsstring option"
  dueTime :: "jsstring jsopt"

text \<open>A call of \<open>supabase.functions.invoke\<close>: the name of the function and the body.\<close>

datatype invocation = Invoke jsstring reminder_body

text \<open>
  \<open>scheduleTaskReminder\<close>: the time zone \<open>tza\<close> and the answer \<open>invoke\<close> of the remote
  function are parameters. The result is the list of remote calls made, the console
  lines, and the value (\<open>Inl\<close> for a thrown error). \<open>scheduleTaskReminder_try\<close> is
  the body of the \<open>try\<close> block.
\<close>

definition scheduleTaskReminder_try ::
  "(int \<Rightarrow> int) \<Rightarrow> (jsstring \<Rightarrow> reminder_body \<Rightarrow> unit response) \<Rightarrow> Task \<Rightarrow>
   invocation list \<times> console list \<times> (error + unit)" where
  "scheduleTaskReminder_try tza invoke task =
     (if \<not> truthy_bool (Task.reminderSet task) \<or> \<not> truthy_bool (Task.emailNotification task) \<or>
         \<not> truthy (Task.notificationEmail task)
      then ([], [], Inr ())
      else
        (case (case Task.dueDate task of
                 Some date \<Rightarrow> (case format_PP tza date of Inl e \<Rightarrow> Inl e | Inr s \<Rightarrow> Inr (Some s))
               | None \<Rightarrow> Inr None) of
           Inl e \<Rightarrow> ([], [], Inl e)
         | Inr due \<Rightarrow>
             (let body = \<lparr> reminder_body.taskId = Task.id' task,
                           reminder_body.email = Task.notificationEmail task,
                           reminder_body.taskTitle = Task.title task,
                           reminder_body.dueDate = due,
                           reminder_body.dueTime = Task.dueTime task \<rparr>;
                  calls = [Invoke (js ''send-reminder'') body]
              in (case invoke (js ''send-reminder'') body of
                    Rejects e \<Rightarrow> (calls, [], Inl e)
                  | Resolves data error \<Rightarrow>
                      (case error of
                         Some e \<Rightarrow> (calls, [], Inl e)
                       | None \<Rightarrow>
                           (calls, [ConsoleLog (js ''Reminder scheduled successfully'')],
                            Inr ()))))))"

definition scheduleTaskReminder ::
  "(int \<Rightarrow> int) \<Rightarrow> (jsstring \<Rightarrow> reminder_body \<Rightarrow> unit response) \<Rightarrow> Task \<Rightarrow>
   invocation list \<times> console list \<times> (error + unit)" where
  "scheduleTaskReminder tza invoke task =
     (case scheduleTaskReminder_try tza invoke task of
        (calls, lines, Inl e) \<Rightarrow>
          (calls, lines @ [ConsoleError (js ''Error scheduling reminder:'') e], Inl e)
      | (calls, lines, Inr u) \<Rightarrow> (calls, lines, Inr u))"

text \<open>The error that the remote function reports, if any.\<close>

definition reported :: "'a response \<Rightarrow> error option" where
  "reported r = (case r of Rejects e \<Rightarrow> Some e | Resolves d e \<Rightarrow> e)"

text \<open>The three conditions under which a reminder is sent.\<close>

definition reminderWanted :: "Task \<Rightarrow> bool" where
  "reminderWanted task =
     (truthy_bool (Task.reminderSet task) \<and> truthy_bool (Task.emailNotification task) \<and>
      truthy (Task.notificationEmail task))"

text \<open>
  The due date of a task of the data model is a calendar date or \<open>null\<close>: never an
  invalid \<open>Date\<close>.
\<close>

definition validDueDate :: "Task \<Rightarrow> bool" where
  "validDueDate task = (Task.dueDate task \<noteq> Some InvalidDate)"

section \<open>Example values\<close>

text \<open>Three time zones with a fixed offset, and a runtime that parses nothing but ISO dates.\<close>

definition utc_minus_5 :: "int \<Rightarrow> int" where
  "utc_minus_5 t = - 18000000"

definition utc_plus_2 :: "int \<Rightarrow> int" where
  "utc_plus_2 t = 7200000"

definition utc :: "int \<Rightarrow> int" where
  "utc t = 0"

definition no_fallback :: "jsstring \<Rightarrow> jsdate" where
  "no_fallback s = InvalidDate"

text \<open>Candidate members, a task with a reminder, and answers of the remote function.\<close>

definition example_members :: "teamMember list" where
  "example_members =
     [\<lparr> teamMember.id' = js ''u1'', teamMember.name = js ''alice'' \<rparr>,
      \<lparr> teamMember.id' = js ''u2'', teamMember.name = js ''Bo'' \<rparr>,
      \<lparr> teamMember.id' = js ''u3'', teamMember.name = js ''c'' \<rparr>]"

definition example_task :: Task where
  "example_task =
     \<lparr> Task.id' = js ''t1'',
       Task.title = js ''Pay rent'',
       Task.description = [],
       Task.priority = high,
       Task.status = pending,
       Task.dueDate = Some (TimeValue 1710086400000),
       Task.dueTime = Defined (js ''09:00''),
       Task.reminderSet = Defined True,
       Task.reminderTime = Defined (js ''08:00''),
       Task.progress = Undefined,
       Task.assignedTo = Undefined,
       Task.tags = Undefined,
       Task.teamId = Undefined,
       Task.emailNotification = Defined True,
       Task.notificationEmail = Defined (js ''a@b.c'') \<rparr>"

definition invoke_ok :: "jsstring \<Rightarrow> reminder_body \<Rightarrow> unit response" where
  "invoke_ok f body = Resolves None None"

definition invoke_fails :: "jsstring \<Rightarrow> reminder_body \<Rightarrow> unit response" where
  "invoke_fails f body = Resolves None (Some (BackendError (js ''boom'')))"

text \<open>Answers of the two queries of \<open>getTeams\<close>.\<close>

definition memberships_fail :: "jsstring \<Rightarrow> membership_ref list response" where
  "memberships_fail userId = Resolves None (Some (BackendError (js ''denied'')))"

definition memberships_none :: "jsstring \<Rightarrow> membership_ref list response" where
  "memberships_none userId = Resolves (Some []) None"

definition memberships_one :: "jsstring \<Rightarrow> membership_ref list response" where
  "memberships_one userId = Resolves (Some [\<lparr> membership_ref.team_id = js ''team1'' \<rparr>]) None"

definition teams_fail :: "jsstring list \<Rightarrow> Team list response" where
  "teams_fail teamIds = Rejects (BackendError (js ''offline''))"

text \<open>An empty store, the parameters of a new team, and three behaviours of the store.\<close>

definition empty_store :: store where
  "empty_store = \<lparr> teams = [], team_members = [] \<rparr>"

definition example_params :: CreateTeamParams where
  "example_params =
     \<lparr> CreateTeamParams.name = js ''Ops'',
       CreateTeamParams.description = Undefined,
       CreateTeamParams.created_by = js ''u1'' \<rparr>"

definition backend_ok :: backend where
  "backend_ok =
     \<lparr> team_insert_error = None, member_insert_error = None,
       generated_team_id = js ''team1'', generated_member_id = js ''m1'',
       now = js ''2024-03-10T16:00:00Z'' \<rparr>"

definition backend_team_fails :: backend where
  "backend_team_fails = backend_ok \<lparr> team_insert_error := Some (BackendError (js ''denied'')) \<rparr>"

definition backend_member_fails :: backend where
  "backend_member_fails = backend_ok \<lparr> member_insert_error := Some (BackendError (js ''denied'')) \<rparr>"

text \<open>A form used in the examples below.\<close>

definition example_form :: form_data where
  "example_form =
     \<lparr> form_data.title = js ''New'',
       form_data.description = [],
       form_data.priority = medium,
       form_data.status = pending,
       form_data.dueDate = None,
       form_data.dueTime = Undefined,
       form_data.reminderEnabled = False,
       form_data.reminderTime = Defined (js ''09:00''),
       form_data.progress = js ''50'',
       form_data.tags = Defined (js ''a, b ,,c''),
       form_data.assignedTo = Defined [],
       form_data.teamId = Defined [] \<rparr>"

section \<open>Calendar arithmetic\<close>

lemma div_int_step:
  fixes x n :: int
  assumes "0 < n"
  shows "(x + 1) div n = x div n + (if (x + 1) mod n = 0 then 1 else 0)"
proof -
  define q r where "q = x div n" and "r = x mod n"
  have x: "x = n * q + r" and r: "0 \<le> r" "r < n"
    using assms by (simp_all add: q_def r_def)
  show ?thesis
  proof (cases "r + 1 = n")
    case True
    then have e: "x + 1 = n * (q + 1) + 0"
      using x by (simp add: algebra_simps)
    have "(x + 1) div n = q + 1"
      using int_div_pos_eq [OF e] assms by simp
    moreover have "(x + 1) mod n = 0"
      using int_mod_pos_eq [OF e] assms by simp
    ultimately show ?thesis by (simp add: q_def)
  next
    case False
    then have lt: "r + 1 < n" using r by simp
    have e: "x + 1 = n * q + (r + 1)" using x by simp
    have "(x + 1) div n = q"
      using int_div_pos_eq [OF e _ lt] r by simp
    moreover have "(x + 1) mod n = r + 1"
      using int_mod_pos_eq [OF e _ lt] r by simp
    ultimately show ?thesis using r by (simp add: q_def)
  qed
qed

lemma shift_mod: "(k::int) dvd c \<Longrightarrow> (y - c) mod k = 0 \<longleftrightarrow> y mod k = 0"
  by (simp add: mod_eq_0_iff_dvd dvd_diff_left_iff)

lemma DayFromYear_step: "DayFromYear (y + 1) = DayFromYear y + DaysInYear y"
proof -
  have a: "(y + 1 - 1969) div 4 = (y - 1969) div 4 + (if y mod 4 = 0 then 1 else 0)"
    using div_int_step [of 4 "y - 1969"] shift_mod [of 4 1968 y] by (simp add: algebra_simps)
  have b: "(y + 1 - 1901) div 100 = (y - 1901) div 100 + (if y mod 100 = 0 then 1 else 0)"
    using div_int_step [of 100 "y - 1901"] shift_mod [of 100 1900 y] by (simp add: algebra_simps)
  have c: "(y + 1 - 1601) div 400 = (y - 1601) div 400 + (if y mod 400 = 0 then 1 else 0)"
    using div_int_step [of 400 "y - 1601"] shift_mod [of 400 1600 y] by (simp add: algebra_simps)
  have m1: "y mod 4 = 0" if "y mod 100 = 0"
  proof -
    from that have "100 dvd y" by (simp add: mod_eq_0_iff_dvd)
    moreover have "(4::int) dvd 100" by simp
    ultimately have "4 dvd y" using dvd_trans by blast
    then show ?thesis by (simp add: mod_eq_0_iff_dvd)
  qed
  have m2: "y mod 100 = 0" if "y mod 400 = 0"
  proof -
    from that have "400 dvd y" by (simp add: mod_eq_0_iff_dvd)
    moreover have "(100::int) dvd 400" by simp
    ultimately have "100 dvd y" using dvd_trans by blast
    then show ?thesis by (simp add: mod_eq_0_iff_dvd)
  qed
  define A B C where "A = (y - 1969) div 4" and "B = (y - 1901) div 100"
    and "C = (y - 1601) div 400"
  define ia ib ic :: int where "ia = (if y mod 4 = 0 then 1 else 0)"
    and "ib = (if y mod 100 = 0 then 1 else 0)" and "ic = (if y mod 400 = 0 then 1 else 0)"
  have "DayFromYear (y + 1) =
          365 * (y + 1 - 1970) + (y + 1 - 1969) div 4 - (y + 1 - 1901) div 100 +
          (y + 1 - 1601) div 400"
    by (simp only: DayFromYear_def)
  also have "\<dots> = 365 * (y + 1 - 1970) + (A + ia) - (B + ib) + (C + ic)"
    by (simp only: a b c A_def B_def C_def ia_def ib_def ic_def)
  also have "\<dots> = (365 * (y - 1970) + A - B + C) + (365 + ia - ib + ic)"
    by (simp only: algebra_simps)
  also have "365 * (y - 1970) + A - B + C = DayFromYear y"
    by (simp only: DayFromYear_def A_def B_def C_def)
  also have "365 + ia - ib + ic = DaysInYear y"
    using m1 m2 unfolding DaysInYear_def ia_def ib_def ic_def
    by (cases "y mod 400 = 0"; cases "y mod 100 = 0"; cases "y mod 4 = 0"; simp)
  finally show ?thesis .
qed

lemma div_bounds:
  fixes x n :: int
  assumes "0 < n"
  shows "n * (x div n) \<le> x" and "x < n * (x div n) + n"
proof -
  have "x = n * (x div n) + x mod n" by simp
  moreover have "0 \<le> x mod n" "x mod n < n" using assms by simp_all
  ultimately show "n * (x div n) \<le> x" and "x < n * (x div n) + n" by linarith+
qed

lemma DayFromYear_bounds:
  "146097 * (y - 1970) - 506 \<le> 400 * DayFromYear y"
  "400 * DayFromYear y \<le> 146097 * (y - 1970) + 589"
proof -
  define A B C where "A = (y - 1969) div 4" and "B = (y - 1901) div 100"
    and "C = (y - 1601) div 400"
  have D: "DayFromYear y = 365 * (y - 1970) + A - B + C"
    by (simp only: DayFromYear_def A_def B_def C_def)
  have a: "4 * A \<le> y - 1969" "y - 1969 < 4 * A + 4"
    unfolding A_def using div_bounds [of 4 "y - 1969"] by simp_all
  have b: "100 * B \<le> y - 1901" "y - 1901 < 100 * B + 100"
    unfolding B_def using div_bounds [of 100 "y - 1901"] by simp_all
  have c: "400 * C \<le> y - 1601" "y - 1601 < 400 * C + 400"
    unfolding C_def using div_bounds [of 400 "y - 1601"] by simp_all
  show "146097 * (y - 1970) - 506 \<le> 400 * DayFromYear y"
    unfolding D using a b c by (simp add: algebra_simps)
  show "400 * DayFromYear y \<le> 146097 * (y - 1970) + 589"
    unfolding D using a b c by (simp add: algebra_simps)
qed

lemma YearFromTime_spec:
  "DayFromYear (YearFromTime t) \<le> Day t" "Day t < DayFromYear (YearFromTime t + 1)"
proof -
  define d where "d = Day t"
  define y where "y = 1970 + (400 * d) div 146097"
  have k: "146097 * (y - 1970) \<le> 400 * d" "400 * d < 146097 * (y - 1970) + 146097"
    unfolding y_def using div_bounds [of 146097 "400 * d"] by simp_all
  have lo: "DayFromYear (y - 1) \<le> d"
    using DayFromYear_bounds(2) [of "y - 1"] k by (simp add: algebra_simps)
  have hi: "d < DayFromYear (y + 2)"
    using DayFromYear_bounds(1) [of "y + 2"] k by (simp add: algebra_simps)
  have Y: "YearFromTime t =
             (if DayFromYear (y + 1) \<le> d then y + 1 else if DayFromYear y \<le> d then y else y - 1)"
    by (simp add: YearFromTime_def Let_def d_def y_def)
  show "DayFromYear (YearFromTime t) \<le> Day t"
    unfolding Y d_def [symmetric] using lo by simp
  have "d < DayFromYear (y + 1 + 1)"
    using hi by (simp add: add.commute)
  then show "Day t < DayFromYear (YearFromTime t + 1)"
    unfolding Y d_def [symmetric] by (simp add: not_le)
qed

lemma DaysInYear_cases: "DaysInYear y = 365 \<or> DaysInYear y = 366"
  by (simp add: DaysInYear_def)

lemma DayFromYear_mono: "y \<le> z \<Longrightarrow> DayFromYear y \<le> DayFromYear z"
proof (induction z rule: int_ge_induct)
  case base
  show ?case by simp
next
  case (step i)
  then show ?case
    using DayFromYear_step [of i] DaysInYear_cases [of i] by auto
qed

text \<open>\<open>YearFromTime t\<close> is the largest year that starts on or before the day of \<open>t\<close>.\<close>

lemma YearFromTime_largest: "DayFromYear y \<le> Day t \<Longrightarrow> y \<le> YearFromTime t"
proof (rule ccontr)
  assume a: "DayFromYear y \<le> Day t" and "\<not> y \<le> YearFromTime t"
  then have "YearFromTime t + 1 \<le> y" by simp
  then have "DayFromYear (YearFromTime t + 1) \<le> DayFromYear y"
    by (rule DayFromYear_mono)
  with a YearFromTime_spec(2) [of t] show False by simp
qed

lemma DayWithinYear_range:
  "0 \<le> DayWithinYear t" "DayWithinYear t < DaysInYear (YearFromTime t)"
  using YearFromTime_spec [of t] DayFromYear_step [of "YearFromTime t"]
  by (simp_all add: DayWithinYear_def)

lemma MonthFromTime_range: "0 \<le> MonthFromTime t" "MonthFromTime t \<le> 11"
  by (simp_all add: MonthFromTime_def Let_def)

lemma MakeDay_components:
  "MakeDay (YearFromTime t) (MonthFromTime t) (DateFromTime t) = Day t"
proof -
  have m: "MonthFromTime t div 12 = 0" "MonthFromTime t mod 12 = MonthFromTime t"
    using MonthFromTime_range [of t] by simp_all
  have l: "(if DaysInYear (YearFromTime t) = 366 then 1 else 0) = InLeapYear t"
    by (simp add: InLeapYear_def)
  have "monthStart (DaysInYear (YearFromTime t)) (MonthFromTime t) + DateFromTime t - 1 =
          DayWithinYear t"
    unfolding monthStart_def DateFromTime_def l Let_def
    by (simp add: MonthFromTime_def Let_def)
  then show ?thesis
    by (simp add: MakeDay_def Let_def m DayWithinYear_def)
qed

lemma DateFromTime_range:
  "1 \<le> DateFromTime t" "DateFromTime t \<le> DaysInMonth (YearFromTime t) (MonthFromTime t)"
proof -
  have l: "(if DaysInYear (YearFromTime t) = 366 then 1 else 0) = InLeapYear t"
    by (simp add: InLeapYear_def)
  have i: "InLeapYear t = 0 \<or> InLeapYear t = 1"
    by (simp add: InLeapYear_def)
  have n: "DaysInYear (YearFromTime t) = 365 + InLeapYear t"
    using DaysInYear_cases [of "YearFromTime t"] by (auto simp: InLeapYear_def)
  show "1 \<le> DateFromTime t"
    using DayWithinYear_range(1) [of t] i
    unfolding DateFromTime_def MonthFromTime_def Let_def
    by (auto split: if_splits)
  show "DateFromTime t \<le> DaysInMonth (YearFromTime t) (MonthFromTime t)"
    using DayWithinYear_range [of t] i
    unfolding DaysInMonth_def monthStart_def l n DateFromTime_def MonthFromTime_def Let_def
    by (auto split: if_splits)
qed

lemma Day_MakeDate: "Day (MakeDate d 0) = d"
  by (simp add: Day_def MakeDate_def msPerDay_def)

text \<open>Some dates: the epoch and the day before, leap days, the first and the last year of four digits.\<close>

lemma calendar_examples:
  "utcDateComponents 0 = (1970, 0, 1)"
  "utcDateComponents (- 1) = (1969, 11, 31)"
  "utcDateComponents 951782400000 = (2000, 1, 29)"
  "utcDateComponents 4107456000000 = (2100, 1, 28)"
  "utcDateComponents 4107542400000 = (2100, 2, 1)"
  "utcDateComponents (- 62135596800000) = (1, 0, 1)"
  "utcDateComponents 253402214400000 = (9999, 11, 31)"
  by code_simp+

section \<open>Decimal digits\<close>

lemma digit_code_unit:
  assumes "k < 10"
  shows "isDigit (48 + of_nat k)" and "uint (48 + of_nat k :: 16 word) - 48 = int k"
proof -
  have e: "(48 + of_nat k :: 16 word) = of_nat (48 + k)"
    by simp
  have "uint (of_nat (48 + k) :: 16 word) = int (take_bit 16 (48 + k))"
    by (simp only: unsigned_of_nat) simp
  moreover have "take_bit 16 (48 + k) = 48 + k"
    using assms by (intro take_bit_nat_eq_self) simp
  ultimately have u: "uint (48 + of_nat k :: 16 word) = 48 + int k"
    by (simp only: e)
  show "uint (48 + of_nat k :: 16 word) - 48 = int k"
    by (simp only: u)
  show "isDigit (48 + of_nat k)"
    unfolding isDigit_def word_le_def u using assms by simp
qed

lemma digitsValue_snoc: "digitsValue (z @ [c]) = 10 * digitsValue z + (uint c - 48)"
  by (simp add: digitsValue_def)

lemma digitsValue_Nil: "digitsValue [] = 0"
  by (simp add: digitsValue_def)

lemma decimal_isDigit: "list_all isDigit (decimal n)"
proof (induction n rule: decimal.induct)
  case (1 n)
  show ?case
  proof (cases "n < 10")
    case True
    then show ?thesis
      by (subst decimal.simps) (simp add: digit_code_unit(1))
  next
    case False
    then show ?thesis
      using "1.IH" by (subst decimal.simps) (simp add: digit_code_unit(1))
  qed
qed

lemma digitsValue_decimal: "digitsValue (decimal n) = int n"
proof (induction n rule: decimal.induct)
  case (1 n)
  show ?case
  proof (cases "n < 10")
    case True
    then show ?thesis
      using digitsValue_snoc [of "[]"] 
      by (subst decimal.simps) (simp add: digit_code_unit(2) digitsValue_Nil)
  next
    case False
    have "int n = 10 * int (n div 10) + int (n mod 10)"
      by presburger
    with False show ?thesis
      using "1.IH" 
      by (subst decimal.simps) (simp add: digitsValue_snoc digit_code_unit(2))
  qed
qed

lemma length_decimal: "n < 10 ^ k \<Longrightarrow> 0 < k \<Longrightarrow> length (decimal n) \<le> k"
proof (induction n arbitrary: k rule: decimal.induct)
  case (1 n)
  show ?case
  proof (cases "n < 10")
    case True
    then show ?thesis
      using "1.prems" by (subst decimal.simps) simp
  next
    case False
    obtain j where k: "k = Suc j"
      using "1.prems"(2) by (cases k) simp_all
    have "j \<noteq> 0"
      using False "1.prems"(1) k by (cases j) simp_all
    moreover have "n div 10 < 10 ^ j"
      using "1.prems"(1) k by (simp add: less_mult_imp_div_less mult.commute)
    ultimately have "length (decimal (n div 10)) \<le> j"
      using "1.IH" [of j] False by simp
    then show ?thesis
      using False k by (subst decimal.simps) simp
  qed
qed

lemma digitsValue_zeros: "digitsValue (replicate k 0x30 @ z) = digitsValue z"
proof -
  have "foldl (\<lambda>a c. 10 * a + (uint c - 48)) 0 (replicate k (0x30 :: 16 word)) = (0::int)"
    by (induction k) simp_all
  then show ?thesis
    by (simp add: digitsValue_def)
qed

lemma addLeadingZeros_props:
  assumes "0 \<le> n" "n < 10 ^ k" "0 < k"
  shows "length (addLeadingZeros n k) = k"
    and "list_all isDigit (addLeadingZeros n k)"
    and "digitsValue (addLeadingZeros n k) = n"
proof -
  have len: "length (decimal (nat n)) \<le> k"
    using assms by (intro length_decimal) (simp_all add: nat_less_iff)
  have e: "addLeadingZeros n k = replicate (k - length (decimal (nat n))) 0x30 @ decimal (nat n)"
    using assms(1) by (simp add: addLeadingZeros_def padStart_def)
  show "length (addLeadingZeros n k) = k"
    using len by (simp add: e)
  show "list_all isDigit (addLeadingZeros n k)"
    using decimal_isDigit [of "nat n"] by (simp add: e list_all_iff) (auto simp: isDigit_def)
  show "digitsValue (addLeadingZeros n k) = n"
    using assms(1) by (simp add: e digitsValue_zeros digitsValue_decimal)
qed

section \<open>Storage dates: formatting and parsing back\<close>

lemma DaysInMonth_le_31: "0 \<le> m \<Longrightarrow> m \<le> 11 \<Longrightarrow> DaysInMonth y m \<le> 31"
  using DaysInYear_cases [of y]
  by (auto simp: DaysInMonth_def monthStart_def Let_def)

lemma iso_string_parts:
  assumes "length Y = 4" "length M = 2" "length D = 2"
  shows "length (Y @ c # M @ c' # D) = 10"
    and "take 4 (Y @ c # M @ c' # D) = Y"
    and "(Y @ c # M @ c' # D) ! 4 = c"
    and "take 2 (drop 5 (Y @ c # M @ c' # D)) = M"
    and "(Y @ c # M @ c' # D) ! 7 = c'"
    and "drop 8 (Y @ c # M @ c' # D) = D"
  using assms by (simp_all add: nth_append)

lemma parseISODate_format:
  assumes "0 \<le> y" "y \<le> 9999" "1 \<le> m" "m \<le> 12" "1 \<le> d" "d \<le> DaysInMonth y (m - 1)"
  shows "parseISODate (addLeadingZeros y 4 @ js ''-'' @ addLeadingZeros m 2 @ js ''-'' @
                       addLeadingZeros d 2) =
         Some (MakeDate (MakeDay y (m - 1) d) 0)"
proof -
  have d31: "d \<le> 31"
    using assms DaysInMonth_le_31 [of "m - 1" y] by simp
  note Y = addLeadingZeros_props [of y 4]
  note M = addLeadingZeros_props [of m 2]
  note D = addLeadingZeros_props [of d 2]
  have Y': "length (addLeadingZeros y 4) = 4" "list_all isDigit (addLeadingZeros y 4)"
    "digitsValue (addLeadingZeros y 4) = y"
    using assms by (simp_all add: Y)
  have M': "length (addLeadingZeros m 2) = 2" "list_all isDigit (addLeadingZeros m 2)"
    "digitsValue (addLeadingZeros m 2) = m"
    using assms by (simp_all add: M)
  have D': "length (addLeadingZeros d 2) = 2" "list_all isDigit (addLeadingZeros d 2)"
    "digitsValue (addLeadingZeros d 2) = d"
    using assms d31 by (simp_all add: D)
  have s: "addLeadingZeros y 4 @ js ''-'' @ addLeadingZeros m 2 @ js ''-'' @ addLeadingZeros d 2 =
           addLeadingZeros y 4 @ 0x2D # addLeadingZeros m 2 @ 0x2D # addLeadingZeros d 2"
    by (simp add: js_def)
  note parts = iso_string_parts [OF Y'(1) M'(1) D'(1), of "0x2D" "0x2D"]
  show ?thesis
    unfolding s parseISODate_def parts Let_def
    using assms by (simp add: Y' M' D')
qed

lemma utcDateComponents_Day: "Day a = Day b \<Longrightarrow> utcDateComponents a = utcDateComponents b"
  by (simp add: utcDateComponents_def YearFromTime_def MonthFromTime_def DateFromTime_def
      DayWithinYear_def InLeapYear_def)

lemma Day_MakeDate_offset: "0 \<le> k \<Longrightarrow> k < msPerDay \<Longrightarrow> Day (MakeDate d 0 + k) = d"
  by (simp add: Day_def MakeDate_def msPerDay_def div_pos_pos_trivial)

lemma format_then_parse:
  assumes "1 \<le> YearFromTime (LocalTime tza t)" "YearFromTime (LocalTime tza t) \<le> 9999"
  shows "\<exists>s. formatDateForSupabase tza (TimeValue t) = Inr s \<and>
             parseDateFromSupabase other (Defined s) =
               Some (TimeValue (MakeDate (Day (LocalTime tza t)) 0))"
proof -
  define lt where "lt = LocalTime tza t"
  define s where "s = addLeadingZeros (YearFromTime lt) 4 @ js ''-'' @
                      addLeadingZeros (MonthFromTime lt + 1) 2 @ js ''-'' @
                      addLeadingZeros (DateFromTime lt) 2"
  have f: "formatDateForSupabase tza (TimeValue t) = Inr s"
    using assms by (simp add: formatDateForSupabase_def format_yyyy_MM_dd_def Let_def s_def lt_def)
  have p: "parseISODate s =
             Some (MakeDate (MakeDay (YearFromTime lt) (MonthFromTime lt + 1 - 1) (DateFromTime lt)) 0)"
    unfolding s_def
    using assms MonthFromTime_range [of lt] DateFromTime_range [of lt]
    by (intro parseISODate_format) (simp_all add: lt_def)
  have ne: "s \<noteq> []"
    by (simp add: s_def js_def)
  have "parseDateFromSupabase other (Defined s) = Some (TimeValue (MakeDate (Day lt) 0))"
    using p ne by (simp add: parseDateFromSupabase_def truthy_def newDate_def MakeDay_components)
  with f show ?thesis
    by (simp add: lt_def)
qed

text \<open>
  What the two functions do together, for a date whose local year lies between 1 and 9999:
  the text is the local calendar date, and the date read back is midnight UTC of that
  calendar date.
\<close>

lemma storage_date_round_trip:
  assumes "1 \<le> YearFromTime (LocalTime tza t)" "YearFromTime (LocalTime tza t) \<le> 9999"
  shows "\<exists>s r. formatDateForSupabase tza (TimeValue t) = Inr s \<and>
               parseDateFromSupabase other (Defined s) = Some (TimeValue r) \<and>
               r = MakeDate (Day (LocalTime tza t)) 0 \<and>
               utcDateComponents r = localDateComponents tza t \<and>
               (0 \<le> tza r \<and> tza r < msPerDay \<longrightarrow>
                  localDateComponents tza r = localDateComponents tza t)"
proof -
  define r where "r = MakeDate (Day (LocalTime tza t)) 0"
  obtain s where s: "formatDateForSupabase tza (TimeValue t) = Inr s"
    "parseDateFromSupabase other (Defined s) = Some (TimeValue r)"
    using format_then_parse [OF assms, of other] unfolding r_def by blast
  have u: "utcDateComponents r = localDateComponents tza t"
    unfolding localDateComponents_def r_def
    by (rule utcDateComponents_Day) (simp add: Day_MakeDate)
  have l: "localDateComponents tza r = localDateComponents tza t"
    if "0 \<le> tza r" "tza r < msPerDay"
  proof -
    have "Day (LocalTime tza r) = Day (MakeDate (Day (LocalTime tza t)) 0 + tza r)"
      by (simp add: LocalTime_def r_def)
    also have "\<dots> = Day (LocalTime tza t)"
      using that by (rule Day_MakeDate_offset)
    finally show ?thesis
      unfolding localDateComponents_def by (rule utcDateComponents_Day)
  qed
  show ?thesis
    using s u l r_def by blast
qed

text \<open>
  Claim C2: a date written by \<open>formatDateForSupabase\<close> and read back by
  \<open>parseDateFromSupabase\<close> should be the same calendar date. The code breaks this west
  of UTC, because the text is written from the local date components and read back as
  midnight UTC. At UTC-5, the date 2024-03-10 11:00 local time is written as
  \<open>2024-03-10\<close> and read back as 2024-03-10 00:00 UTC, which is 2024-03-09 19:00 local
  time: the local date components, which are also what the reminder's display date is
  made of, are those of the day before.
\<close>

theorem storage_date_round_trip_west_of_utc:
  "formatDateForSupabase utc_minus_5 (TimeValue 1710086400000) = Inr (js ''2024-03-10'') \<and>
   parseDateFromSupabase no_fallback (Defined (js ''2024-03-10'')) =
     Some (TimeValue 1710028800000) \<and>
   localDateComponents utc_minus_5 1710086400000 = (2024, 2, 10) \<and>
   localDateComponents utc_minus_5 1710028800000 = (2024, 2, 9) \<and>
   format_PP utc_minus_5 (TimeValue 1710086400000) = Inr (js ''Mar 10, 2024'') \<and>
   format_PP utc_minus_5 (TimeValue 1710028800000) = Inr (js ''Mar 9, 2024'')"
  by code_simp

text \<open>The round trip at UTC+2, for the same date.\<close>

lemma storage_date_round_trip_example:
  "1 \<le> YearFromTime (LocalTime utc_plus_2 1710086400000) \<and>
   YearFromTime (LocalTime utc_plus_2 1710086400000) \<le> 9999 \<and>
   (\<exists>s r. formatDateForSupabase utc_plus_2 (TimeValue 1710086400000) = Inr s \<and>
          parseDateFromSupabase no_fallback (Defined s) = Some (TimeValue r) \<and>
          utcDateComponents r = localDateComponents utc_plus_2 1710086400000 \<and>
          localDateComponents utc_plus_2 r = localDateComponents utc_plus_2 1710086400000)"
proof -
  have y: "YearFromTime (LocalTime utc_plus_2 1710086400000) = 2024"
    by code_simp
  have z: "0 \<le> utc_plus_2 r \<and> utc_plus_2 r < msPerDay" for r
    by (simp add: utc_plus_2_def msPerDay_def)
  show ?thesis
    using storage_date_round_trip [of utc_plus_2 1710086400000 no_fallback] z
    by (simp add: y) blast
qed

text \<open>
  A date of year 0 is written with the year 1, since date-fns writes a year before year 1
  as \<open>1 - year\<close>.
\<close>

lemma storage_date_year_zero:
  "utcDateComponents (- 62167219200000) = (0, 0, 1)"
  "formatDateForSupabase utc (TimeValue (- 62167219200000)) = Inr (js ''0001-01-01'')"
  "parseDateFromSupabase no_fallback (Defined (js ''0001-01-01'')) =
     Some (TimeValue (- 62135596800000))"
  "utcDateComponents (- 62135596800000) = (1, 0, 1)"
  by code_simp+

section \<open>Task edit submission: the submitted object\<close>

subsection \<open>Strings\<close>

lemma js_Nil: "js [] = []"
  by (simp add: js_def)

lemma split_not_Nil: "split sep s \<noteq> []"
  by (induction s) (auto split: list.splits)

lemma length_split: "length (split sep s) = Suc (count_list s sep)"
  by (induction s) (auto split: list.splits simp: split_not_Nil)

lemma split_no_separator: "list_all (\<lambda>p. sep \<notin> set p) (split sep s)"
  by (induction s) (auto split: list.splits)

lemma join_Cons_Cons: "join sep ((a # p) # ps) = a # join sep (p # ps)"
  by (cases ps) simp_all

lemma join_split: "join sep (split sep s) = s"
  by (induction s) (auto split: list.splits simp: split_not_Nil join_Cons_Cons)

lemma trim_no_outer_white_space:
  "trim s = [] \<or> (\<not> isWhiteSpace (hd (trim s)) \<and> \<not> isWhiteSpace (last (trim s)))"
proof (cases "trim s = []")
  case True
  then show ?thesis by simp
next
  case False
  define u where "u = dropWhile isWhiteSpace s"
  define v where "v = dropWhile isWhiteSpace (rev u)"
  have t: "trim s = rev v"
    by (simp add: trim_def u_def v_def)
  have v: "v \<noteq> []"
    using False t by simp
  then have l: "\<not> isWhiteSpace (hd v)"
    unfolding v_def by (rule hd_dropWhile)
  have "set v \<subseteq> set (rev u)"
    unfolding v_def by (rule set_dropWhileD [THEN subsetI]) 
  then have un: "u \<noteq> []"
    using v by auto
  then have hu: "\<not> isWhiteSpace (hd u)"
    unfolding u_def by (rule hd_dropWhile)
  obtain w where w: "rev u = w @ v"
    unfolding v_def by (metis takeWhile_dropWhile_id)
  then have "u = rev v @ rev w"
    by (metis rev_append rev_rev_ident)
  then have "hd u = hd (rev v)"
    using v by simp
  then have "\<not> isWhiteSpace (hd (trim s))"
    using hu t by simp
  moreover have "last (trim s) = hd v"
    using v t by (simp add: last_rev)
  ultimately show ?thesis
    using l by simp
qed

lemma substring_0_2: "substring 0 2 s = take 2 s"
  by (simp add: substring_def Let_def min_def max_def)

subsection \<open>The submitted object\<close>

lemma handleSubmit_calls:
  "handleSubmit U task ms d = [OnSubmit (onSubmit_payload U task ms d), OnOpenChange False]"
  by (simp add: handleSubmit_def)

lemma processTags_eq:
  "processTags raw =
     (case raw of
        Defined s \<Rightarrow> if s = [] then [] else map trim (split 0x2C s)
      | Null \<Rightarrow> []
      | Undefined \<Rightarrow> [])"
  by (simp add: processTags_def truthy_def split: jsopt.splits)

lemma payload_tags:
  "submission.tags (onSubmit_payload U task ms d) =
     (case form_data.tags d of
        Defined s \<Rightarrow> if s = [] then Null else Defined (map trim (split 0x2C s))
      | Null \<Rightarrow> Null
      | Undefined \<Rightarrow> Null)"
  by (simp add: onSubmit_payload_def processTags_eq split_not_Nil split: jsopt.splits)

lemma payload_reminder:
  "submission.reminderSet (onSubmit_payload U task ms d) = form_data.reminderEnabled d"
  "submission.reminderTime (onSubmit_payload U task ms d) =
     (if form_data.reminderEnabled d then form_data.reminderTime d else Null)"
  by (simp_all add: onSubmit_payload_def Let_def)

lemma payload_progress:
  "submission.progress (onSubmit_payload U task ms d) = parseInt (form_data.progress d)"
  by (simp add: onSubmit_payload_def Let_def)

lemma payload_teamId:
  "submission.teamId (onSubmit_payload U task ms d) =
     (if truthy (form_data.teamId d) then form_data.teamId d else Undefined)"
  by (simp add: onSubmit_payload_def Let_def)

lemma payload_assignedTo:
  "submission.assignedTo (onSubmit_payload U task ms d) =
     (case assignedTeamMember ms (form_data.assignedTo d) of
        Some m \<Rightarrow>
          Defined \<lparr> assignment.id' = teamMember.id' m,
                    assignment.name = teamMember.name m,
                    assignment.avatar = Undefined,
                    assignment.initials = U (take 2 (teamMember.name m)) \<rparr>
      | None \<Rightarrow> Undefined)"
  by (simp add: onSubmit_payload_def Let_def substring_0_2 split: option.splits)

text \<open>
  Claim C1, amended. The tag string is split on commas and every piece is trimmed, but no
  piece is dropped: the submitted \<open>tags\<close> field is \<open>null\<close> exactly when the raw tag
  string is empty or absent, and otherwise it is the non-empty sequence of all trimmed
  pieces in input order, duplicates and empty strings included.
\<close>

theorem tags_split_and_trimmed:
  "\<exists>p. handleSubmit U task ms d = [OnSubmit p, OnOpenChange False] \<and>
       submission.tags p =
         (case form_data.tags d of
            Defined s \<Rightarrow> if s = [] then Null else Defined (map trim (split 0x2C s))
          | Null \<Rightarrow> Null
          | Undefined \<Rightarrow> Null) \<and>
       submission.tags p \<noteq> Defined []"
  by (simp add: handleSubmit_calls payload_tags split_not_Nil split: jsopt.splits)

text \<open>
  Claim C1 as stated fails on repeated commas: the tag string \<open>a, b ,,c\<close> is submitted
  with an empty string between \<open>b\<close> and \<open>c\<close>.
\<close>

theorem tags_keep_empty_pieces:
  "handleSubmit ascii_toUpperCase None [] example_form =
     [OnSubmit (onSubmit_payload ascii_toUpperCase None [] example_form), OnOpenChange False] \<and>
   form_data.tags example_form = Defined (js ''a, b ,,c'') \<and>
   submission.tags (onSubmit_payload ascii_toUpperCase None [] example_form) =
     Defined [js ''a'', js ''b'', [], js ''c'']"
  by (simp add: handleSubmit_calls payload_tags example_form_def js_def trim_def isWhiteSpace_def)

text \<open>
  Claim C3. When \<open>reminderEnabled\<close> is false, the submitted object has
  \<open>reminderSet = false\<close> and \<open>reminderTime = null\<close>, whatever the raw
  \<open>reminderTime\<close> is; when it is true, \<open>reminderSet\<close> is true and the raw
  \<open>reminderTime\<close> is kept.
\<close>

theorem reminder_fields:
  "\<exists>p. handleSubmit U task ms d = [OnSubmit p, OnOpenChange False] \<and>
       (\<not> form_data.reminderEnabled d \<longrightarrow>
          submission.reminderSet p = False \<and> submission.reminderTime p = Null) \<and>
       (form_data.reminderEnabled d \<longrightarrow>
          submission.reminderSet p = True \<and>
          submission.reminderTime p = form_data.reminderTime d)"
  by (simp add: handleSubmit_calls payload_reminder)

text \<open>The example form, with the reminder disabled and then enabled.\<close>

theorem reminder_fields_witness:
  "\<not> form_data.reminderEnabled example_form \<and>
   form_data.reminderTime example_form = Defined (js ''09:00'') \<and>
   (\<exists>p. handleSubmit ascii_toUpperCase None [] example_form = [OnSubmit p, OnOpenChange False] \<and>
        submission.reminderSet p = False \<and> submission.reminderTime p = Null) \<and>
   form_data.reminderEnabled (example_form \<lparr> form_data.reminderEnabled := True \<rparr>) \<and>
   (\<exists>p. handleSubmit ascii_toUpperCase None []
          (example_form \<lparr> form_data.reminderEnabled := True \<rparr>) =
          [OnSubmit p, OnOpenChange False] \<and>
        submission.reminderSet p = True \<and> submission.reminderTime p = Defined (js ''09:00''))"
  using reminder_fields [of ascii_toUpperCase None "[]" example_form]
    reminder_fields [of ascii_toUpperCase None "[]"
      "example_form \<lparr> form_data.reminderEnabled := True \<rparr>"]
  by (simp add: example_form_def)

text \<open>
  Claim C10. When the raw \<open>teamId\<close> is the empty string or absent, the submitted object
  has no \<open>teamId\<close>; a non-empty \<open>teamId\<close> is passed through unchanged.
\<close>

theorem teamId_unset_when_empty:
  "\<exists>p. handleSubmit U task ms d = [OnSubmit p, OnOpenChange False] \<and>
       (form_data.teamId d = Defined [] \<or> form_data.teamId d = Undefined \<or>
        form_data.teamId d = Null \<longrightarrow> submission.teamId p = Undefined) \<and>
       (\<forall>s. form_data.teamId d = Defined s \<and> s \<noteq> [] \<longrightarrow> submission.teamId p = Defined s)"
  by (auto simp add: handleSubmit_calls payload_teamId truthy_def)

text \<open>The example form, with an empty and with a non-empty team.\<close>

theorem teamId_unset_when_empty_witness:
  "form_data.teamId example_form = Defined [] \<and>
   (\<exists>p. handleSubmit ascii_toUpperCase None [] example_form = [OnSubmit p, OnOpenChange False] \<and>
        submission.teamId p = Undefined) \<and>
   (\<exists>p. handleSubmit ascii_toUpperCase None []
          (example_form \<lparr> form_data.teamId := Defined (js ''team1'') \<rparr>) =
          [OnSubmit p, OnOpenChange False] \<and>
        submission.teamId p = Defined (js ''team1''))"
  using teamId_unset_when_empty [of ascii_toUpperCase None "[]" example_form]
    teamId_unset_when_empty [of ascii_toUpperCase None "[]"
      "example_form \<lparr> form_data.teamId := Defined (js ''team1'') \<rparr>"]
  by (simp add: example_form_def js_def)

lemma find_member:
  "a \<in> teamMember.id' ` set ms \<Longrightarrow>
     \<exists>m. List.find (\<lambda>m. teamMember.id' m = a) ms = Some m \<and> m \<in> set ms \<and> teamMember.id' m = a"
  "a \<notin> teamMember.id' ` set ms \<Longrightarrow> List.find (\<lambda>m. teamMember.id' m = a) ms = None"
  by (induction ms) auto

text \<open>
  Claim C4. For a non-empty raw \<open>assignedTo\<close>: if it is the id of a candidate member, the
  submitted \<open>assignedTo\<close> is a snapshot of the first such member, whose initials are the
  upper case of the first two code units of the member's name (of the whole name when it
  is shorter); if it is the id of no candidate member, \<open>assignedTo\<close> is left out. No
  error is raised in either case.
\<close>

theorem assignee_resolution:
  assumes "form_data.assignedTo d = Defined a" and "a \<noteq> []"
  shows "\<exists>p. handleSubmit U task ms d = [OnSubmit p, OnOpenChange False] \<and>
           (a \<in> teamMember.id' ` set ms \<longrightarrow>
              (\<exists>m. List.find (\<lambda>m. teamMember.id' m = a) ms = Some m \<and> m \<in> set ms \<and>
                   teamMember.id' m = a \<and>
                   submission.assignedTo p =
                     Defined \<lparr> assignment.id' = a,
                               assignment.name = teamMember.name m,
                               assignment.avatar = Undefined,
                               assignment.initials = U (take 2 (teamMember.name m)) \<rparr>)) \<and>
           (a \<notin> teamMember.id' ` set ms \<longrightarrow> submission.assignedTo p = Undefined)"
proof -
  have m: "assignedTeamMember ms (form_data.assignedTo d) =
             List.find (\<lambda>m. teamMember.id' m = a) ms"
    using assms by (simp add: assignedTeamMember_def truthy_def)
  show ?thesis
    using find_member [of a ms]
    by (auto simp add: handleSubmit_calls payload_assignedTo m)
qed

text \<open>
  Three submissions against the example members: a name of five code units, a name of one,
  and an id that no member has.
\<close>

theorem assignee_resolution_witness:
  "(\<exists>p. handleSubmit ascii_toUpperCase None example_members
          (example_form \<lparr> form_data.assignedTo := Defined (js ''u1'') \<rparr>) =
          [OnSubmit p, OnOpenChange False] \<and>
        submission.assignedTo p =
          Defined \<lparr> assignment.id' = js ''u1'', assignment.name = js ''alice'',
                    assignment.avatar = Undefined, assignment.initials = js ''AL'' \<rparr>) \<and>
   (\<exists>p. handleSubmit ascii_toUpperCase None example_members
          (example_form \<lparr> form_data.assignedTo := Defined (js ''u3'') \<rparr>) =
          [OnSubmit p, OnOpenChange False] \<and>
        submission.assignedTo p =
          Defined \<lparr> assignment.id' = js ''u3'', assignment.name = js ''c'',
                    assignment.avatar = Undefined, assignment.initials = js ''C'' \<rparr>) \<and>
   (\<exists>p. handleSubmit ascii_toUpperCase None example_members
          (example_form \<lparr> form_data.assignedTo := Defined (js ''u9'') \<rparr>) =
          [OnSubmit p, OnOpenChange False] \<and>
        submission.assignedTo p = Undefined)"
  using
    assignee_resolution [of "example_form \<lparr> form_data.assignedTo := Defined (js ''u1'') \<rparr>"
      "js ''u1''" ascii_toUpperCase None example_members]
    assignee_resolution [of "example_form \<lparr> form_data.assignedTo := Defined (js ''u3'') \<rparr>"
      "js ''u3''" ascii_toUpperCase None example_members]
    assignee_resolution [of "example_form \<lparr> form_data.assignedTo := Defined (js ''u9'') \<rparr>"
      "js ''u9''" ascii_toUpperCase None example_members]
  by (simp add: example_form_def example_members_def js_def ascii_toUpperCase_def)

lemma parseInt_NaN_iff:
  "parseInt s = NaN \<longleftrightarrow>
     (case stripSign (dropWhile isWhiteSpace s) of [] \<Rightarrow> True | c # cs \<Rightarrow> \<not> isDigit c)"
  by (simp add: parseInt_def toNumber_def Let_def split: list.splits option.splits)

lemma parseInt_number:
  "parseInt s \<noteq> NaN \<Longrightarrow>
     parseInt s =
       toNumber (isNegative (dropWhile isWhiteSpace s))
         (digitsValue (takeWhile isDigit (stripSign (dropWhile isWhiteSpace s))))"
  by (simp add: parseInt_def Let_def split: if_splits)

lemma isDigit_not_white: "isDigit c \<Longrightarrow> \<not> isWhiteSpace c"
  unfolding isDigit_def isWhiteSpace_def
  by (auto simp: word_le_def)

lemma numericString_no_leading_white:
  assumes "numericString s"
  shows "dropWhile isWhiteSpace s = s"
proof (cases s)
  case Nil
  then show ?thesis by simp
next
  case (Cons c cs)
  have "\<not> isWhiteSpace c"
  proof (cases "c = 0x2B \<or> c = 0x2D")
    case True
    then show ?thesis by (auto simp: isWhiteSpace_def)
  next
    case False
    then have "isDigit c"
      using assms Cons by (simp add: numericString_def stripSign_def)
    then show ?thesis by (rule isDigit_not_white)
  qed
  then show ?thesis
    using Cons by simp
qed

lemma parseInt_numericString:
  assumes "numericString s"
  shows "parseInt s = toNumber (isNegative s) (digitsValue (stripSign s))"
proof -
  have tw: "takeWhile isDigit (stripSign s) = stripSign s"
    using assms by (simp add: numericString_def list_all_iff)
  have ne: "stripSign s \<noteq> []"
    using assms by (simp add: numericString_def)
  show ?thesis
    unfolding parseInt_def Let_def numericString_no_leading_white [OF assms] tw
    using ne by simp
qed

subsection \<open>Rounding to a double\<close>

lemma bitLength_le: "n < 2 ^ k \<Longrightarrow> bitLength n \<le> k"
proof (induction n arbitrary: k rule: bitLength.induct)
  case (1 n)
  show ?case
  proof (cases "n \<le> 0")
    case True
    then show ?thesis by (subst bitLength.simps) simp
  next
    case False
    with "1.prems" obtain j where k: "k = Suc j"
      by (cases k) simp_all
    have "n div 2 < 2 ^ j"
      using "1.prems" k by simp
    then have "bitLength (n div 2) \<le> j"
      using "1.IH" False by simp
    then show ?thesis
      using False k by (subst bitLength.simps) simp
  qed
qed

lemma bitLength_lower: "0 < n \<Longrightarrow> 2 ^ bitLength n \<le> 2 * n"
proof (induction n rule: bitLength.induct)
  case (1 n)
  have b: "bitLength n = Suc (bitLength (n div 2))"
    using "1.prems" by (subst bitLength.simps) simp
  show ?case
  proof (cases "0 < n div 2")
    case True
    then have "2 ^ bitLength (n div 2) \<le> 2 * (n div 2)"
      using "1.IH" "1.prems" by simp
    also have "\<dots> \<le> n" by simp
    finally show ?thesis by (simp add: b)
  next
    case False
    then have "bitLength (n div 2) = 0"
      by (subst bitLength.simps) simp
    then show ?thesis
      using "1.prems" by (simp add: b)
  qed
qed

lemma bitLength_upper: "n < 2 ^ bitLength n"
proof (induction n rule: bitLength.induct)
  case (1 n)
  show ?case
  proof (cases "n \<le> 0")
    case True
    then show ?thesis by (subst bitLength.simps) simp
  next
    case False
    then have "n div 2 < 2 ^ bitLength (n div 2)"
      using "1.IH" by simp
    then have "n < 2 * 2 ^ bitLength (n div 2)"
      by linarith
    then show ?thesis
      using False by (subst bitLength.simps) simp
  qed
qed

text \<open>An integer below \<open>2 ^ 53\<close> is a double.\<close>

lemma roundToDouble_exact: "n < 2 ^ 53 \<Longrightarrow> roundToDouble n = Some n"
  using bitLength_le [of n 53] by (simp add: roundToDouble_def)

lemma toNumber_exact:
  "0 < n \<Longrightarrow> n < 2 ^ 53 \<Longrightarrow> toNumber negative n = Num ((if negative then - 1 else 1) * n)"
  by (simp add: toNumber_def roundToDouble_exact)

text \<open>
  A larger one is rounded to a significand of 53 bits times the power of two of its
  surplus bits, at a distance of at most half that power.
\<close>

lemma roundToDouble_nearest:
  assumes "roundToDouble n = Some v" and "53 < bitLength n"
  shows "\<exists>m. v = m * 2 ^ (bitLength n - 53) \<and> 2 ^ 52 \<le> m \<and> m \<le> 2 ^ 53 \<and>
             2 * \<bar>v - n\<bar> \<le> 2 ^ (bitLength n - 53)"
proof -
  define sh where "sh = bitLength n - 53"
  define X :: int where "X = 2 ^ sh"
  define q where "q = n div X"
  define r where "r = n mod X"
  define half :: int where "half = 2 ^ (sh - 1)"
  define q' where "q' = (if half < r \<or> (r = half \<and> odd q) then q + 1 else q)"
  have sh: "0 < sh" "bitLength n = sh + 53"
    using assms(2) by (simp_all add: sh_def)
  have v: "v = q' * X"
    using assms
    by (auto simp add: roundToDouble_def Let_def sh_def X_def q_def r_def half_def q'_def
        split: if_splits)
  have pos: "0 < n"
    using assms(2) by (subst (asm) bitLength.simps) (simp split: if_splits)
  have X: "0 < X" "X = 2 * half"
    using sh(1) by (cases sh; simp add: X_def half_def)+
  have n: "n = q * X + r" and r: "0 \<le> r" "r < X"
    using X(1) by (simp_all add: q_def r_def)
  have "n < 2 ^ (sh + 53)"
    using bitLength_upper [of n] by (simp add: sh(2))
  then have up: "n < 2 ^ 53 * X"
    by (simp add: X_def power_add mult.commute)
  have "2 ^ (sh + 53) \<le> 2 * n"
    using bitLength_lower [OF pos] by (simp add: sh(2))
  then have lo: "2 ^ 52 * X \<le> n"
    by (simp add: X_def power_add mult.commute)
  have "q * X < 2 ^ 53 * X"
    using n r(1) up by linarith
  then have q_up: "q < 2 ^ 53"
    using X(1) by (simp only: mult_less_cancel_right_pos)
  have "2 ^ 52 * X < (q + 1) * X"
    using n r(2) lo by (simp add: algebra_simps)
  then have "2 ^ 52 < q + 1"
    using X(1) by (simp only: mult_less_cancel_right_pos)
  then have q_lo: "2 ^ 52 \<le> q"
    by simp
  have m: "2 ^ 52 \<le> q'" "q' \<le> 2 ^ 53"
    using q_lo q_up by (simp_all add: q'_def)
  have near: "2 * \<bar>v - n\<bar> \<le> X"
  proof (cases "half < r \<or> (r = half \<and> odd q)")
    case True
    then have "q' = q + 1" by (simp add: q'_def)
    then have "v - n = X - r"
      using v n by (simp add: algebra_simps)
    moreover have "half \<le> r" using True by auto
    ultimately show ?thesis
      using r X(2) by simp
  next
    case False
    then have "q' = q" by (simp add: q'_def)
    then have "v - n = - r"
      using v n by simp
    moreover have "r \<le> half" using False by auto
    ultimately show ?thesis
      using r X(2) by simp
  qed
  show ?thesis
    using v m near by (auto simp add: X_def sh_def)
qed

text \<open>
  Beyond \<open>2 ^ 53\<close> not every integer is a double: a tie goes to the even significand,
  and a run of 310 digits is beyond all doubles.
\<close>

lemma toNumber_examples:
  "toNumber False 9007199254740993 = Num 9007199254740992"
  "toNumber False 9007199254740995 = Num 9007199254740996"
  "toNumber True 9007199254740993 = Num (- 9007199254740992)"
  "toNumber False 123456789012345678901234567890 = Num 123456789012345677877719597056"
  "toNumber True 0 = NegZero"
  "toNumber False (10 ^ 309) = PosInfinity"
  by code_simp+

text \<open>\<open>parseInt\<close> on some texts; the last is a run of 310 digits.\<close>

lemma parseInt_examples:
  "parseInt (js ''9007199254740993'') = Num 9007199254740992"
  "parseInt (js ''-0'') = NegZero"
  "parseInt (js '' +42px'') = Num 42"
  "parseInt (js ''4.7'') = Num 4"
  "parseInt (js ''1e3'') = Num 1"
  "parseInt [] = NaN"
  "parseInt (js ''+-5'') = NaN"
  "parseInt (replicate 310 0x39) = PosInfinity"
  by code_simp+

text \<open>
  Claim C9, amended. The raw progress is parsed by \<open>parseInt\<close> in base 10, and no error
  is raised. The submitted progress is \<open>NaN\<close> exactly when, after leading white space and
  one optional sign, the text does not start with a decimal digit. Otherwise it is the
  Number for the signed integer that the digits found there write, whatever follows them:
  that integer itself when it is not zero and below \<open>2 ^ 53\<close>, the nearest double when it
  is larger, an infinity beyond the doubles, and \<open>-0\<close> for a zero after a minus sign.
\<close>

theorem progress_parsed_prefix:
  "\<exists>p. handleSubmit U task ms d = [OnSubmit p, OnOpenChange False] \<and>
       (submission.progress p = NaN \<longleftrightarrow>
          (case stripSign (dropWhile isWhiteSpace (form_data.progress d)) of
             [] \<Rightarrow> True
           | c # cs \<Rightarrow> \<not> isDigit c)) \<and>
       (submission.progress p \<noteq> NaN \<longrightarrow>
          submission.progress p =
            toNumber (isNegative (dropWhile isWhiteSpace (form_data.progress d)))
              (digitsValue (takeWhile isDigit
                 (stripSign (dropWhile isWhiteSpace (form_data.progress d)))))) \<and>
       (submission.progress p \<noteq> NaN \<and>
        0 < digitsValue (takeWhile isDigit
              (stripSign (dropWhile isWhiteSpace (form_data.progress d)))) \<and>
        digitsValue (takeWhile isDigit
          (stripSign (dropWhile isWhiteSpace (form_data.progress d)))) < 2 ^ 53 \<longrightarrow>
          submission.progress p =
            Num ((if isNegative (dropWhile isWhiteSpace (form_data.progress d)) then - 1 else 1) *
                 digitsValue (takeWhile isDigit
                   (stripSign (dropWhile isWhiteSpace (form_data.progress d)))))) \<and>
       (numericString (form_data.progress d) \<longrightarrow>
          submission.progress p =
            toNumber (isNegative (form_data.progress d))
              (digitsValue (stripSign (form_data.progress d))))"
  using parseInt_NaN_iff [of "form_data.progress d"] parseInt_number [of "form_data.progress d"]
    parseInt_numericString [of "form_data.progress d"]
    toNumber_exact [of "digitsValue (takeWhile isDigit
      (stripSign (dropWhile isWhiteSpace (form_data.progress d))))"
      "isNegative (dropWhile isWhiteSpace (form_data.progress d))"]
  by (simp add: handleSubmit_calls payload_progress)

text \<open>
  A numeric string, a text without digits, a number followed by a word, an integer that is
  not a double, and a negative zero.
\<close>

theorem progress_parsed_prefix_witness:
  "(\<exists>p. handleSubmit ascii_toUpperCase None [] example_form = [OnSubmit p, OnOpenChange False] \<and>
        numericString (form_data.progress example_form) \<and> submission.progress p = Num 50) \<and>
   (\<exists>p. handleSubmit ascii_toUpperCase None []
          (example_form \<lparr> form_data.progress := js ''abc'' \<rparr>) =
          [OnSubmit p, OnOpenChange False] \<and>
        submission.progress p = NaN) \<and>
   (\<exists>p. handleSubmit ascii_toUpperCase None []
          (example_form \<lparr> form_data.progress := js '' -7 days'' \<rparr>) =
          [OnSubmit p, OnOpenChange False] \<and>
        submission.progress p = Num (- 7)) \<and>
   (\<exists>p. handleSubmit ascii_toUpperCase None []
          (example_form \<lparr> form_data.progress := js ''9007199254740993'' \<rparr>) =
          [OnSubmit p, OnOpenChange False] \<and>
        submission.progress p = Num 9007199254740992) \<and>
   (\<exists>p. handleSubmit ascii_toUpperCase None []
          (example_form \<lparr> form_data.progress := js ''-0'' \<rparr>) =
          [OnSubmit p, OnOpenChange False] \<and>
        submission.progress p = NegZero)"
proof -
  have small: "toNumber False 50 = Num 50" "toNumber True 7 = Num (- 7)"
    by (simp_all add: toNumber_exact)
  show ?thesis
    using progress_parsed_prefix [of ascii_toUpperCase None "[]" example_form]
      progress_parsed_prefix [of ascii_toUpperCase None "[]"
        "example_form \<lparr> form_data.progress := js ''abc'' \<rparr>"]
      progress_parsed_prefix [of ascii_toUpperCase None "[]"
        "example_form \<lparr> form_data.progress := js '' -7 days'' \<rparr>"]
      progress_parsed_prefix [of ascii_toUpperCase None "[]"
        "example_form \<lparr> form_data.progress := js ''9007199254740993'' \<rparr>"]
      progress_parsed_prefix [of ascii_toUpperCase None "[]"
        "example_form \<lparr> form_data.progress := js ''-0'' \<rparr>"]
    by (auto simp add: example_form_def js_def numericString_def stripSign_def isNegative_def
        isDigit_def isWhiteSpace_def digitsValue_def small toNumber_examples)
qed

text \<open>
  Claim C9 as stated fails on a malformed text that starts with digits: \<open>12abc\<close> is not
  a numeric string, and the submitted progress is the number 12.
\<close>

theorem progress_malformed_is_number:
  "\<not> numericString (js ''12abc'') \<and>
   handleSubmit ascii_toUpperCase None [] (example_form \<lparr> form_data.progress := js ''12abc'' \<rparr>) =
     [OnSubmit (onSubmit_payload ascii_toUpperCase None []
                  (example_form \<lparr> form_data.progress := js ''12abc'' \<rparr>)),
      OnOpenChange False] \<and>
   submission.progress
     (onSubmit_payload ascii_toUpperCase None []
        (example_form \<lparr> form_data.progress := js ''12abc'' \<rparr>)) = Num 12"
proof -
  have "toNumber False 12 = Num 12"
    by (simp add: toNumber_exact)
  then show ?thesis
    by (simp add: handleSubmit_calls payload_progress example_form_def js_def numericString_def
        parseInt_def stripSign_def isNegative_def isDigit_def isWhiteSpace_def digitsValue_def)
qed

section \<open>Team lookup, team creation and reminders\<close>

subsection \<open>Team lookup\<close>

lemma getTeams_never_throws: "\<exists>lines ts. getTeams sm st uid = (lines, Inr ts)"
  by (simp add: getTeams_def split: sum.splits)

lemma getTeams_try_no_rows: "no_rows (sm uid) \<Longrightarrow> getTeams_try sm st uid = Inr []"
  by (auto simp add: getTeams_try_def no_rows_def split: response.splits option.splits)

lemma getTeams_try_failed: "failed (sm uid) \<Longrightarrow> \<exists>e. getTeams_try sm st uid = Inl e"
  by (auto simp add: getTeams_try_def failed_def split: response.splits option.splits)

lemma getTeams_try_teams_failed:
  assumes "\<not> failed (sm uid)" "\<not> no_rows (sm uid)"
    and "failed (st (map membership_ref.team_id (rows_of (sm uid))))"
  shows "\<exists>e. getTeams_try sm st uid = Inl e"
  using assms
  by (auto simp add: getTeams_try_def failed_def no_rows_def rows_of_def
      split: response.splits option.splits)

text \<open>
  Claim C6. \<open>getTeams\<close> never throws. It returns the empty list when the user has no
  membership rows, when the membership query fails, and when the team query fails.
\<close>

theorem getTeams_swallows_failures:
  "(\<exists>lines ts. getTeams sm st uid = (lines, Inr ts)) \<and>
   (no_rows (sm uid) \<longrightarrow> getTeams sm st uid = ([], Inr [])) \<and>
   (failed (sm uid) \<longrightarrow> snd (getTeams sm st uid) = Inr []) \<and>
   (\<not> failed (sm uid) \<and> \<not> no_rows (sm uid) \<and>
    failed (st (map membership_ref.team_id (rows_of (sm uid)))) \<longrightarrow>
      snd (getTeams sm st uid) = Inr [])"
proof (intro conjI impI)
  show "\<exists>lines ts. getTeams sm st uid = (lines, Inr ts)"
    by (rule getTeams_never_throws)
  show "getTeams sm st uid = ([], Inr [])" if "no_rows (sm uid)"
    using getTeams_try_no_rows [of sm uid st] that by (simp add: getTeams_def)
  show "snd (getTeams sm st uid) = Inr []" if "failed (sm uid)"
    using getTeams_try_failed [of sm uid st] that by (auto simp add: getTeams_def)
  show "snd (getTeams sm st uid) = Inr []"
    if "\<not> failed (sm uid) \<and> \<not> no_rows (sm uid) \<and>
        failed (st (map membership_ref.team_id (rows_of (sm uid))))"
    using getTeams_try_teams_failed [of sm uid st] that by (auto simp add: getTeams_def)
qed

text \<open>No membership rows; a failing membership query; a failing team query.\<close>

theorem getTeams_swallows_failures_witness:
  "no_rows (memberships_none (js ''u1'')) \<and>
   getTeams memberships_none teams_fail (js ''u1'') = ([], Inr []) \<and>
   failed (memberships_fail (js ''u1'')) \<and>
   snd (getTeams memberships_fail teams_fail (js ''u1'')) = Inr [] \<and>
   failed (teams_fail [js ''team1'']) \<and>
   snd (getTeams memberships_one teams_fail (js ''u1'')) = Inr []"
  using getTeams_swallows_failures [of memberships_none teams_fail "js ''u1''"]
    getTeams_swallows_failures [of memberships_fail teams_fail "js ''u1''"]
    getTeams_swallows_failures [of memberships_one teams_fail "js ''u1''"]
  by (simp add: no_rows_def failed_def rows_of_def memberships_none_def memberships_fail_def
      memberships_one_def teams_fail_def)

subsection \<open>Team creation\<close>

text \<open>
  Claim C7. \<open>createTeam\<close> inserts the team row and then a membership row for the
  creator with the admin role, and returns the team. If the first insert fails, the error
  is thrown and the store is unchanged. If the second insert fails, the error is thrown
  and the team row stays in the store; the team then has no members, when no membership
  row referred to its id before.
\<close>

theorem createTeam_two_inserts:
  fixes b :: backend and db :: store and params :: CreateTeamParams
  defines "team \<equiv>
     \<lparr> Team.id' = generated_team_id b,
       Team.name = CreateTeamParams.name params,
       Team.description =
         (case CreateTeamParams.description params of
            Defined s \<Rightarrow> if s = [] then None else Some s
          | Null \<Rightarrow> None
          | Undefined \<Rightarrow> None),
       Team.created_by = CreateTeamParams.created_by params,
       Team.created_at = now b \<rparr>"
  defines "membership \<equiv>
     \<lparr> team_member_row.id' = generated_member_id b,
       team_member_row.team_id = generated_team_id b,
       team_member_row.user_id = CreateTeamParams.created_by params,
       team_member_row.role = Admin,
       team_member_row.joined_at = now b \<rparr>"
  shows
    "(team_insert_error b = None \<and> member_insert_error b = None \<longrightarrow>
        createTeam b db params =
          ([], Inr team,
           db \<lparr> teams := teams db @ [team], team_members := team_members db @ [membership] \<rparr>)) \<and>
     (\<forall>e. team_insert_error b = Some e \<longrightarrow>
        createTeam b db params = ([ConsoleError (js ''Error creating team:'') e], Inl e, db)) \<and>
     (\<forall>e. team_insert_error b = None \<and> member_insert_error b = Some e \<longrightarrow>
        createTeam b db params =
          ([ConsoleError (js ''Error creating team:'') e], Inl e,
           db \<lparr> teams := teams db @ [team] \<rparr>) \<and>
        team \<in> set (teams (snd (snd (createTeam b db params)))) \<and>
        (members_of db (Team.id' team) = [] \<longrightarrow>
           members_of (snd (snd (createTeam b db params))) (Team.id' team) = []))"
  unfolding team_def membership_def
  by (auto simp add: createTeam_def createTeam_try_def insert_team_def insert_team_member_def
      truthy_def members_of_def Let_def split: jsopt.splits)

text \<open>A store that accepts both inserts, one that refuses the first, one that refuses the second.\<close>

theorem createTeam_two_inserts_witness:
  "createTeam backend_ok empty_store example_params =
     ([],
      Inr \<lparr> Team.id' = js ''team1'', Team.name = js ''Ops'', Team.description = None,
            Team.created_by = js ''u1'', Team.created_at = js ''2024-03-10T16:00:00Z'' \<rparr>,
      \<lparr> teams =
          [\<lparr> Team.id' = js ''team1'', Team.name = js ''Ops'', Team.description = None,
              Team.created_by = js ''u1'', Team.created_at = js ''2024-03-10T16:00:00Z'' \<rparr>],
        team_members =
          [\<lparr> team_member_row.id' = js ''m1'', team_member_row.team_id = js ''team1'',
              team_member_row.user_id = js ''u1'', team_member_row.role = Admin,
              team_member_row.joined_at = js ''2024-03-10T16:00:00Z'' \<rparr>] \<rparr>) \<and>
   createTeam backend_team_fails empty_store example_params =
     ([ConsoleError (js ''Error creating team:'') (BackendError (js ''denied''))],
      Inl (BackendError (js ''denied'')), empty_store) \<and>
   fst (snd (createTeam backend_member_fails empty_store example_params)) =
     Inl (BackendError (js ''denied'')) \<and>
   teams (snd (snd (createTeam backend_member_fails empty_store example_params))) =
     [\<lparr> Team.id' = js ''team1'', Team.name = js ''Ops'', Team.description = None,
         Team.created_by = js ''u1'', Team.created_at = js ''2024-03-10T16:00:00Z'' \<rparr>] \<and>
   members_of (snd (snd (createTeam backend_member_fails empty_store example_params)))
     (js ''team1'') = []"
  using createTeam_two_inserts [of backend_ok empty_store example_params]
    createTeam_two_inserts [of backend_team_fails empty_store example_params]
    createTeam_two_inserts [of backend_member_fails empty_store example_params]
  by (simp add: backend_ok_def backend_team_fails_def backend_member_fails_def empty_store_def
      example_params_def members_of_def)

subsection \<open>Reminder scheduling\<close>

lemma format_PP_valid: "\<exists>s. format_PP tza (TimeValue t) = Inr s"
  by (simp add: format_PP_def Let_def)

lemma scheduleTaskReminder_not_wanted:
  "\<not> reminderWanted task \<Longrightarrow> scheduleTaskReminder tza invoke task = ([], [], Inr ())"
  by (auto simp add: scheduleTaskReminder_def scheduleTaskReminder_try_def reminderWanted_def)

text \<open>
  An invalid \<open>Date\<close> is not a due date of the data model. Were a task to hold one,
  formatting it would throw before any call is made.
\<close>

lemma scheduleTaskReminder_invalid_dueDate:
  "reminderWanted task \<Longrightarrow> Task.dueDate task = Some InvalidDate \<Longrightarrow>
     scheduleTaskReminder tza invoke task =
       ([], [ConsoleError (js ''Error scheduling reminder:'') RangeError], Inl RangeError)"
  by (simp add: scheduleTaskReminder_def scheduleTaskReminder_try_def reminderWanted_def
      format_PP_def)

lemma scheduleTaskReminder_wanted:
  assumes "reminderWanted task" and "validDueDate task"
  shows "\<exists>due. (case Task.dueDate task of
                  None \<Rightarrow> due = None
                | Some date \<Rightarrow> (\<exists>s. due = Some s \<and> format_PP tza date = Inr s)) \<and>
               fst (scheduleTaskReminder tza invoke task) =
                 [Invoke (js ''send-reminder'')
                    \<lparr> reminder_body.taskId = Task.id' task,
                      reminder_body.email = Task.notificationEmail task,
                      reminder_body.taskTitle = Task.title task,
                      reminder_body.dueDate = due,
                      reminder_body.dueTime = Task.dueTime task \<rparr>] \<and>
               snd (snd (scheduleTaskReminder tza invoke task)) =
                 (case reported (invoke (js ''send-reminder'')
                         \<lparr> reminder_body.taskId = Task.id' task,
                           reminder_body.email = Task.notificationEmail task,
                           reminder_body.taskTitle = Task.title task,
                           reminder_body.dueDate = due,
                           reminder_body.dueTime = Task.dueTime task \<rparr>) of
                    Some e \<Rightarrow> Inl e
                  | None \<Rightarrow> Inr ())"
proof (cases "Task.dueDate task")
  case None
  then show ?thesis
    using assms(1)
    by (auto simp add: scheduleTaskReminder_def scheduleTaskReminder_try_def reminderWanted_def
        reported_def Let_def split: response.splits option.splits)
next
  case (Some date)
  then obtain t where t: "date = TimeValue t"
    using assms(2) by (cases date) (simp_all add: validDueDate_def)
  obtain s where s: "format_PP tza (TimeValue t) = Inr s"
    using format_PP_valid by blast
  show ?thesis
    using assms(1) Some t s
    by (auto simp add: scheduleTaskReminder_def scheduleTaskReminder_try_def reminderWanted_def
        reported_def Let_def split: response.splits option.splits)
qed

lemma example_long_date:
  "format_PP utc_minus_5 (TimeValue 1710086400000) = Inr (js ''Mar 10, 2024'')"
  by code_simp

lemma example_task_facts:
  "validDueDate example_task" "reminderWanted example_task"
  "\<not> reminderWanted (example_task \<lparr> Task.reminderSet := Defined False \<rparr>)"
  "validDueDate (example_task \<lparr> Task.reminderSet := Defined False \<rparr>)"
  by (simp_all add: validDueDate_def reminderWanted_def example_task_def truthy_def
      truthy_bool_def js_def)

text \<open>
  Claim C5. For a task whose due date is \<open>null\<close> or a valid date, as the data model has
  it: \<open>scheduleTaskReminder\<close> returns at once, with no remote call and no error, unless
  \<open>reminderSet\<close>, \<open>emailNotification\<close> and \<open>notificationEmail\<close> are all set; when they
  are, it calls \<open>send-reminder\<close> exactly once, with the task id, the email address, the
  title, the due date in its display form (\<open>null\<close> when there is none) and the due time.
\<close>

theorem scheduleTaskReminder_guard_and_payload:
  assumes "validDueDate task"
  shows
    "(\<not> reminderWanted task \<longrightarrow> scheduleTaskReminder tza invoke task = ([], [], Inr ())) \<and>
     (reminderWanted task \<longrightarrow>
        (\<exists>due. (case Task.dueDate task of
                  None \<Rightarrow> due = None
                | Some date \<Rightarrow> (\<exists>s. due = Some s \<and> format_PP tza date = Inr s)) \<and>
               fst (scheduleTaskReminder tza invoke task) =
                 [Invoke (js ''send-reminder'')
                    \<lparr> reminder_body.taskId = Task.id' task,
                      reminder_body.email = Task.notificationEmail task,
                      reminder_body.taskTitle = Task.title task,
                      reminder_body.dueDate = due,
                      reminder_body.dueTime = Task.dueTime task \<rparr>]))"
  using scheduleTaskReminder_not_wanted [of task tza invoke]
    scheduleTaskReminder_wanted [of task tza invoke] assms
  by blast

text \<open>The example task, and the same task with the reminder off.\<close>

theorem scheduleTaskReminder_guard_and_payload_witness:
  "validDueDate example_task \<and> reminderWanted example_task \<and>
   fst (scheduleTaskReminder utc_minus_5 invoke_ok example_task) =
     [Invoke (js ''send-reminder'')
        \<lparr> reminder_body.taskId = js ''t1'',
          reminder_body.email = Defined (js ''a@b.c''),
          reminder_body.taskTitle = js ''Pay rent'',
          reminder_body.dueDate = Some (js ''Mar 10, 2024''),
          reminder_body.dueTime = Defined (js ''09:00'') \<rparr>] \<and>
   validDueDate (example_task \<lparr> Task.reminderSet := Defined False \<rparr>) \<and>
   \<not> reminderWanted (example_task \<lparr> Task.reminderSet := Defined False \<rparr>) \<and>
   scheduleTaskReminder utc_minus_5 invoke_ok
     (example_task \<lparr> Task.reminderSet := Defined False \<rparr>) = ([], [], Inr ())"
proof -
  have d: "Task.dueDate example_task = Some (TimeValue 1710086400000)"
    "Task.id' example_task = js ''t1''"
    "Task.notificationEmail example_task = Defined (js ''a@b.c'')"
    "Task.title example_task = js ''Pay rent''"
    "Task.dueTime example_task = Defined (js ''09:00'')"
    by (simp_all add: example_task_def)
  show ?thesis
    using scheduleTaskReminder_guard_and_payload
        [OF example_task_facts(1), of utc_minus_5 invoke_ok]
      scheduleTaskReminder_guard_and_payload
        [OF example_task_facts(4), of utc_minus_5 invoke_ok]
      example_task_facts
    by (auto simp add: d example_long_date)
qed

text \<open>
  Claim C8. For a task whose due date is \<open>null\<close> or a valid date, as the data model has
  it: \<open>scheduleTaskReminder\<close> throws \<open>e\<close> exactly when the three conditions hold and
  the call of \<open>send-reminder\<close> that it made reported \<open>e\<close>. So an error that the remote
  function reports is thrown to the caller, and no other error is.
\<close>

theorem scheduleTaskReminder_propagates:
  assumes "validDueDate task"
  shows "snd (snd (scheduleTaskReminder tza invoke task)) = Inl e \<longleftrightarrow>
           reminderWanted task \<and>
           (\<exists>body. fst (scheduleTaskReminder tza invoke task) =
                     [Invoke (js ''send-reminder'') body] \<and>
                   reported (invoke (js ''send-reminder'') body) = Some e)"
proof (cases "reminderWanted task")
  case False
  then show ?thesis
    by (simp add: scheduleTaskReminder_not_wanted)
next
  case True
  from scheduleTaskReminder_wanted [OF True assms, of tza invoke]
  show ?thesis
    using True by (auto split: option.splits)
qed

text \<open>A remote function that reports an error, and one that does not.\<close>

theorem scheduleTaskReminder_propagates_witness:
  "validDueDate example_task \<and>
   snd (snd (scheduleTaskReminder utc_minus_5 invoke_fails example_task)) =
     Inl (BackendError (js ''boom'')) \<and>
   snd (snd (scheduleTaskReminder utc_minus_5 invoke_ok example_task)) \<noteq>
     Inl (BackendError (js ''boom''))"
proof -
  have c: "\<exists>body. fst (scheduleTaskReminder utc_minus_5 invoke_fails example_task) =
             [Invoke (js ''send-reminder'') body]"
    using example_task_facts(2)
    by (simp add: scheduleTaskReminder_def scheduleTaskReminder_try_def reminderWanted_def
        example_task_def format_PP_def Let_def invoke_fails_def)
  have f: "reported (invoke_fails n body) = Some (BackendError (js ''boom''))" for n body
    by (simp add: reported_def invoke_fails_def)
  have k: "reported (invoke_ok n body) = None" for n body
    by (simp add: reported_def invoke_ok_def)
  show ?thesis
    using scheduleTaskReminder_propagates [OF example_task_facts(1), of utc_minus_5 invoke_fails
        "BackendError (js ''boom'')"]
      scheduleTaskReminder_propagates [OF example_task_facts(1), of utc_minus_5 invoke_ok
        "BackendError (js ''boom'')"]
      example_task_facts c
    by (simp add: f k)
qed

end
